theory Spec2Isabelle
  imports Main "HOL-Library.Sublist"
begin

section \<open>Values and exceptions\<close>

text \<open>
  The values \<^verbatim>\<open>json.loads\<close> produces: \<^verbatim>\<open>None\<close>, \<^verbatim>\<open>bool\<close>, \<^verbatim>\<open>int\<close>,
  \<^verbatim>\<open>str\<close>, \<^verbatim>\<open>list\<close> and \<^verbatim>\<open>dict\<close>. A \<^verbatim>\<open>dict\<close> is kept as the list of its
  items in insertion order; \<^verbatim>\<open>d.get(k)\<close> and \<^verbatim>\<open>d[k]\<close> read it with \<open>map_of\<close>.
  A string is the list of its characters. Numbers are Python's unbounded \<^verbatim>\<open>int\<close>;
  literals with a fraction or an exponent are not part of the model.
\<close>

datatype json =
    JNull
  | JBool bool
  | JInt int
  | JStr string
  | JArr "json list"
  | JObj "(string \<times> json) list"

text \<open>
  The exceptions of the program, all of them instances of \<^verbatim>\<open>Exception\<close>. Those the
  source raises itself carry the source's message; \<open>KeyError\<close> carries the missing key;
  \<open>JSONDecodeError\<close> (a subclass of \<^verbatim>\<open>ValueError\<close>) carries the parser's message;
  \<open>RecursionError\<close> is what the parser raises on input nested too deeply, and is not a
  \<^verbatim>\<open>ValueError\<close>; \<open>CollaboratorError\<close> is whatever the browser automation raises.
\<close>

datatype exn =
    Exception string
  | ValueError string
  | JSONDecodeError string
  | KeyError string
  | AttributeError
  | TypeError
  | RecursionError string
  | CollaboratorError string

section \<open>Extraction of the JSON span\<close>

text \<open>
  \<^verbatim>\<open>re.search(r'(\{.*\})', text, re.DOTALL)\<close>. With \<^verbatim>\<open>DOTALL\<close> the dot matches every
  character. \<open>greedy_close\<close> matches \<^verbatim>\<open>.*\}\<close> at the start of its argument the way the
  backtracking matcher does: the star first takes one more character, and only when the
  rest cannot be matched does it stop and try the closing brace here. \<open>re_search\<close>
  tries the start positions from left to right and returns the first match.
\<close>

fun greedy_close :: "string \<Rightarrow> string option" where
  "greedy_close [] = None"
| "greedy_close (c # cs) =
     (case greedy_close cs of
        Some m \<Rightarrow> Some (c # m)
      | None \<Rightarrow> if c = CHR ''}'' then Some [c] else None)"

fun re_search :: "string \<Rightarrow> string option" where
  "re_search [] = None"
| "re_search (c # cs) =
     (if c = CHR ''{'' then
        (case greedy_close cs of
           Some m \<Rightarrow> Some (c # m)
         | None \<Rightarrow> re_search cs)
      else re_search cs)"

definition extract_json :: "string \<Rightarrow> exn + string" where
  "extract_json text =
     (case re_search text of
        None \<Rightarrow> Inl (ValueError ''No JSON object found in text'')
      | Some m \<Rightarrow> Inr m)"

section \<open>Shape normalization\<close>

text \<open>\<^verbatim>\<open>d.get(k, default)\<close> and \<^verbatim>\<open>d[k]\<close> on a \<^verbatim>\<open>dict\<close>.\<close>

definition dict_get :: "(string \<times> json) list \<Rightarrow> string \<Rightarrow> json \<Rightarrow> json" where
  "dict_get d k dflt = (case map_of d k of None \<Rightarrow> dflt | Some v \<Rightarrow> v)"

definition dict_item :: "(string \<times> json) list \<Rightarrow> string \<Rightarrow> exn + json" where
  "dict_item d k = (case map_of d k of None \<Rightarrow> Inl (KeyError k) | Some v \<Rightarrow> Inr v)"

text \<open>
  \<^verbatim>\<open>x.get(k, default)\<close> on any value: only a \<^verbatim>\<open>dict\<close> has the method, every other
  value raises \<^verbatim>\<open>AttributeError\<close>.
\<close>

definition py_get :: "json \<Rightarrow> string \<Rightarrow> json \<Rightarrow> exn + json" where
  "py_get x k dflt = (case x of JObj d \<Rightarrow> Inr (dict_get d k dflt) | _ \<Rightarrow> Inl AttributeError)"

text \<open>The inner function \<^verbatim>\<open>wrap(key)\<close>, with the enclosing \<^verbatim>\<open>raw_json\<close> as argument.\<close>

definition wrap :: "(string \<times> json) list \<Rightarrow> string \<Rightarrow> exn + json" where
  "wrap raw_json key =
     (case dict_item raw_json key of
        Inl e \<Rightarrow> Inl e
      | Inr v \<Rightarrow>
          Inr (JObj [(''assessment'', v),
                     (''suggestions'',
                        JArr [JStr (''Improve '' @ key @ '' clarity''),
                              JStr (''Use simpler structure for '' @ key)])]))"

definition normalize_analysis_json :: "json \<Rightarrow> exn + json" where
  "normalize_analysis_json raw_json =
     (case raw_json of
        JObj d \<Rightarrow>
          (case map_of d ''readability'' of
             Some (JStr _) \<Rightarrow>
               (case wrap d ''readability'' of
                  Inl e \<Rightarrow> Inl e
                | Inr r \<Rightarrow>
               (case wrap d ''structure'' of
                  Inl e \<Rightarrow> Inl e
                | Inr s \<Rightarrow>
               (case wrap d ''completeness'' of
                  Inl e \<Rightarrow> Inl e
                | Inr c \<Rightarrow>
                    Inr (JObj [(''readability'', r),
                               (''structure'', s),
                               (''completeness'', c),
                               (''style_guidelines'',
                                  JObj [(''assessment'', JStr ''Review''),
                                        (''suggestions'',
                                           dict_get d ''style_guidelines'' (JArr []))])]))))
           | _ \<Rightarrow> Inr raw_json)
      | _ \<Rightarrow> Inl AttributeError)"

section \<open>Prompts\<close>

definition analysis_prompt_head :: string where
  "analysis_prompt_head =
     ''\<newline>You are a documentation analyzer assistant.\<newline>\<newline>'' @
     ''Analyze the following documentation article and provide actionable suggestions based on:\<newline>\<newline>'' @
     ''1. Readability for a marketer (explain why it is or isn't readable).\<newline>'' @
     ''2. Structure and flow (headings, paragraphs, lists, logical order).\<newline>'' @
     ''3. Completeness of information and examples (are details and examples sufficient?).\<newline>'' @
     ''4. Adherence to Microsoft Style Guide tips:\<newline>'' @
     ''   - Use bigger ideas, fewer words.\<newline>'' @
     ''   - Write like you speak.\<newline>'' @
     ''   - Project friendliness with contractions.\<newline>\<newline>'' @
     ''Article Title: ''"

definition analysis_prompt_tail :: string where
  "analysis_prompt_tail =
     ''\<newline>\<newline>Provide your analysis as a JSON object with keys: readability, structure, completeness, style_guidelines.\<newline>'' @
     ''Each key should have 'assessment' (string) and 'suggestions' (list of strings).\<newline>''"

definition build_analysis_prompt :: "string \<Rightarrow> string \<Rightarrow> string" where
  "build_analysis_prompt title article_text =
     analysis_prompt_head @ title @ ''\<newline>\<newline>Article Content:\<newline>'' @ article_text
       @ analysis_prompt_tail"

text \<open>Python's \<^verbatim>\<open>sep.join(items)\<close> on a list of strings.\<close>

fun join :: "string \<Rightarrow> string list \<Rightarrow> string" where
  "join sep [] = []"
| "join sep [x] = x"
| "join sep (x # y # ys) = x @ sep @ join sep (y # ys)"

text \<open>
  \<^verbatim>\<open>a + b\<close> on parsed values: lists and strings concatenate, \<^verbatim>\<open>int\<close> and \<^verbatim>\<open>bool\<close>
  add as integers, every other pair of operands raises \<^verbatim>\<open>TypeError\<close>.
\<close>

fun py_add :: "json \<Rightarrow> json \<Rightarrow> exn + json" where
  "py_add (JArr xs) (JArr ys) = Inr (JArr (xs @ ys))"
| "py_add (JStr s) (JStr t) = Inr (JStr (s @ t))"
| "py_add (JInt a) (JInt b) = Inr (JInt (a + b))"
| "py_add (JInt a) (JBool b) = Inr (JInt (a + of_bool b))"
| "py_add (JBool a) (JInt b) = Inr (JInt (of_bool a + b))"
| "py_add (JBool a) (JBool b) = Inr (JInt (of_bool a + of_bool b))"
| "py_add _ _ = Inl TypeError"

text \<open>Truth value of a parsed value, as \<^verbatim>\<open>if x\<close> tests it.\<close>

fun truthy :: "json \<Rightarrow> bool" where
  "truthy JNull = False"
| "truthy (JBool b) = b"
| "truthy (JInt n) = (n \<noteq> 0)"
| "truthy (JStr s) = (s \<noteq> [])"
| "truthy (JArr xs) = (xs \<noteq> [])"
| "truthy (JObj d) = (d \<noteq> [])"

text \<open>
  \<^verbatim>\<open>sep.join(x)\<close> on a parsed value: a list must hold strings only, a string is
  iterated character by character, a \<^verbatim>\<open>dict\<close> by its keys; the other values are not
  iterable. Both failures are \<^verbatim>\<open>TypeError\<close>.
\<close>

fun str_items :: "json list \<Rightarrow> string list option" where
  "str_items [] = Some []"
| "str_items (JStr s # vs) = (case str_items vs of None \<Rightarrow> None | Some ss \<Rightarrow> Some (s # ss))"
| "str_items (_ # vs) = None"

fun py_join :: "string \<Rightarrow> json \<Rightarrow> exn + string" where
  "py_join sep (JArr vs) =
     (case str_items vs of None \<Rightarrow> Inl TypeError | Some ss \<Rightarrow> Inr (join sep ss))"
| "py_join sep (JStr s) = Inr (join sep (map (\<lambda>c. [c]) s))"
| "py_join sep (JObj d) = Inr (join sep (map fst d))"
| "py_join sep _ = Inl TypeError"

text \<open>
  The first half of \<^verbatim>\<open>build_revision_prompt\<close>, up to \<^verbatim>\<open>combined_suggestions\<close>.
  \<^verbatim>\<open>isinstance\<close> is tested on \<^verbatim>\<open>dict\<close> first, then on \<^verbatim>\<open>list\<close>.
\<close>

definition readability_suggestions :: "json \<Rightarrow> exn + json" where
  "readability_suggestions suggestions =
     (case py_get suggestions ''readability'' (JObj []) of
        Inl e \<Rightarrow> Inl e
      | Inr r \<Rightarrow> py_get r ''suggestions'' (JArr []))"

definition style_suggestions :: "json \<Rightarrow> exn + json" where
  "style_suggestions suggestions =
     (case py_get suggestions ''style_guidelines'' (JArr []) of
        Inl e \<Rightarrow> Inl e
      | Inr (JObj sd) \<Rightarrow> Inr (dict_get sd ''suggestions'' (JArr []))
      | Inr (JArr xs) \<Rightarrow> Inr (JArr xs)
      | Inr _ \<Rightarrow> Inr (JArr []))"

definition combined_suggestions :: "json \<Rightarrow> exn + json" where
  "combined_suggestions suggestions =
     (case readability_suggestions suggestions of
        Inl e \<Rightarrow> Inl e
      | Inr rs \<Rightarrow>
          (case style_suggestions suggestions of
             Inl e \<Rightarrow> Inl e
           | Inr ss \<Rightarrow> py_add rs ss))"

definition suggestions_text :: "json \<Rightarrow> exn + string" where
  "suggestions_text combined =
     (if truthy combined then
        (case py_join ''\<newline>- '' combined of
           Inl e \<Rightarrow> Inl e
         | Inr s \<Rightarrow> Inr (''\<newline>- '' @ s))
      else Inr ''No suggestions provided.'')"

definition revision_prompt_head :: string where
  "revision_prompt_head =
     ''\<newline>You are a skilled technical writer assistant.\<newline>\<newline>'' @
     ''Here is an original documentation article:\<newline>\<newline>''"

definition revision_prompt_mid :: string where
  "revision_prompt_mid =
     ''\<newline>\<newline>Based on the following suggestions, please rewrite the article to improve readability and style while keeping the original meaning intact:\<newline>\<newline>''"

definition revision_prompt_tail :: string where
  "revision_prompt_tail = ''\<newline>\<newline>Please output only the revised article text.\<newline>''"

definition revision_template :: "string \<Rightarrow> string \<Rightarrow> string" where
  "revision_template article_text stext =
     revision_prompt_head @ article_text @ revision_prompt_mid @ stext @ revision_prompt_tail"

definition build_revision_prompt :: "string \<Rightarrow> json \<Rightarrow> exn + string" where
  "build_revision_prompt article_text suggestions =
     (case combined_suggestions suggestions of
        Inl e \<Rightarrow> Inl e
      | Inr combined \<Rightarrow>
          (case suggestions_text combined of
             Inl e \<Rightarrow> Inl e
           | Inr stext \<Rightarrow> Inr (revision_template article_text stext)))"

section \<open>The collaborators and the run\<close>

text \<open>
  \<^verbatim>\<open>str.strip()\<close>: leading and trailing whitespace is removed. Among the characters
  below 256 Python counts as whitespace the codes 9 to 13, 28 to 32, 133 and 160.
\<close>

definition py_isspace :: "char \<Rightarrow> bool" where
  "py_isspace c =
     (let n = (of_char c :: nat)
      in (9 \<le> n \<and> n \<le> 13) \<or> (28 \<le> n \<and> n \<le> 32) \<or> n = 133 \<or> n = 160)"

definition strip :: "string \<Rightarrow> string" where
  "strip s = rev (dropWhile py_isspace (rev (dropWhile py_isspace s)))"

text \<open>The finished \<^verbatim>\<open>ollama\<close> process, as \<^verbatim>\<open>proc.communicate\<close> leaves it.\<close>

record completed =
  returncode :: int
  stdout :: string
  stderr :: string

text \<open>
  What the run meets outside the program. The browser: whether \<^verbatim>\<open>page.goto\<close> and
  \<^verbatim>\<open>page.wait_for_selector\<close> raise; what the parsed page holds: \<open>soup_title\<close> is
  \<^verbatim>\<open>soup.title\<close> (\<open>None\<close> when there is no title element, otherwise the element's
  \<^verbatim>\<open>.string\<close>, itself \<^verbatim>\<open>None\<close> or a string), \<open>soup_article\<close> is the text
  \<^verbatim>\<open>get_text\<close> gives for the selected container (\<open>None\<close> when \<^verbatim>\<open>select_one\<close>
  finds none). The model process: its answer to the \<open>n\<close>-th invocation with a prompt, or
  the exception starting it raises. The JSON parser \<^verbatim>\<open>json.loads\<close>.
\<close>

record world =
  goto_raises :: "exn option"
  wait_raises :: "exn option"
  soup_title :: "string option option"
  soup_article :: "string option"
  ollama_run :: "nat \<Rightarrow> string \<Rightarrow> exn + completed"
  json_loads :: "string \<Rightarrow> exn + json"

text \<open>
  What the run does to the outside, in order: calls on the browser, lines printed
  (\<open>PrintExn p e\<close> is \<^verbatim>\<open>print(f"p{e}")\<close>, \<open>PrintJson v\<close> is
  \<^verbatim>\<open>print(json.dumps(v, indent=2))\<close>), and calls of \<^verbatim>\<open>query_ollama\<close>.
\<close>

datatype event =
    Launch
  | NewPage
  | Goto string
  | WaitForSelector string
  | Close
  | Print string
  | PrintJson json
  | PrintExn string exn
  | Invoke string

datatype outcome = Clean | Uncaught exn

definition article_selector :: string where
  "article_selector = ''div.article__body.markdown''"

definition extract_article_with_playwright ::
    "world \<Rightarrow> string \<Rightarrow> (exn + string option \<times> string option) \<times> event list" where
  "extract_article_with_playwright w url =
     (let t = [Launch, NewPage,
               Print ''Opening browser. Please solve the CAPTCHA manually if prompted...'',
               Goto url]
      in case goto_raises w of
           Some e \<Rightarrow> (Inl e, t)
         | None \<Rightarrow>
             (case wait_raises w of
                Some e \<Rightarrow>
                  (Inr (None, None),
                   t @ [WaitForSelector article_selector,
                        Print ''Timeout waiting for article content. Try solving the CAPTCHA and re-run.'',
                        Close])
              | None \<Rightarrow>
                  (let t' = t @ [WaitForSelector article_selector]
                   in case (case soup_title w of
                              None \<Rightarrow> Inr ''No title found''
                            | Some None \<Rightarrow> Inl AttributeError
                            | Some (Some s) \<Rightarrow> Inr (strip s)) of
                        Inl e \<Rightarrow> (Inl e, t')
                      | Inr title \<Rightarrow>
                          (case soup_article w of
                             None \<Rightarrow>
                               (Inl (Exception ''Article content not found after CAPTCHA.''),
                                t' @ [Close])
                           | Some body \<Rightarrow> (Inr (Some title, Some body), t' @ [Close])))))"

definition query_ollama :: "world \<Rightarrow> nat \<Rightarrow> string \<Rightarrow> exn + string" where
  "query_ollama w n prompt =
     (case ollama_run w n prompt of
        Inl e \<Rightarrow> Inl e
      | Inr proc \<Rightarrow>
          if returncode proc \<noteq> 0
          then Inl (Exception (''Ollama error: '' @ strip (stderr proc)))
          else Inr (strip (stdout proc)))"

text \<open>The \<^verbatim>\<open>except (json.JSONDecodeError, ValueError)\<close> clause catches these.\<close>

fun is_ValueError :: "exn \<Rightarrow> bool" where
  "is_ValueError (ValueError _) = True"
| "is_ValueError (JSONDecodeError _) = True"
| "is_ValueError _ = False"

text \<open>
  The body of the \<^verbatim>\<open>try\<close> statement: it returns the exception that leaves it, if
  any, and the events so far.
\<close>

definition try_body :: "world \<Rightarrow> string \<Rightarrow> string \<Rightarrow> event list \<Rightarrow> (exn + unit) \<times> event list" where
  "try_body w article analysis_response t =
     (case extract_json analysis_response of
        Inl e \<Rightarrow> (Inl e, t)
      | Inr json_str \<Rightarrow>
     (case json_loads w json_str of
        Inl e \<Rightarrow> (Inl e, t)
      | Inr raw_analysis_json \<Rightarrow>
     (case normalize_analysis_json raw_analysis_json of
        Inl e \<Rightarrow> (Inl e, t)
      | Inr analysis_json \<Rightarrow>
          (let t1 = t @ [Print ''\<newline>Analysis Result (parsed JSON):\<newline>'',
                         PrintJson analysis_json,
                         Print ''\<newline>Generating revised article based on readability and style suggestions...\<newline>'']
           in case build_revision_prompt article analysis_json of
                Inl e \<Rightarrow> (Inl e, t1)
              | Inr revision_prompt \<Rightarrow>
                  (let t2 = t1 @ [Invoke revision_prompt]
                   in case query_ollama w 1 revision_prompt of
                        Inl e \<Rightarrow> (Inl e, t2)
                      | Inr revised_article \<Rightarrow>
                          (Inr (),
                           t2 @ [Print ''\<newline>Revised Article:\<newline>'',
                                 Print revised_article]))))))"

definition target_url :: string where
  "target_url = ''https://help.moengage.com/hc/en-us/articles/18060739634580-Understanding-Count-Differences-in-Behavior-and-Funnel-Analyses''"

text \<open>The block under \<^verbatim>\<open>if title and article\<close>.\<close>

definition analyze_and_revise :: "world \<Rightarrow> string \<Rightarrow> string \<Rightarrow> event list \<Rightarrow> outcome \<times> event list" where
  "analyze_and_revise w title article t =
     (let prompt = build_analysis_prompt title article;
          t1 = t @ [Print (''Title: '' @ title),
                    Print (''\<newline>Article Preview:\<newline> '' @ take 1000 article),
                    Print ''\<newline>Sending article to Ollama for analysis...'',
                    Invoke prompt]
      in case query_ollama w 0 prompt of
           Inl e \<Rightarrow> (Uncaught e, t1)
         | Inr analysis_response \<Rightarrow>
             (case try_body w article analysis_response t1 of
                (Inr _, t2) \<Rightarrow> (Clean, t2)
              | (Inl e, t2) \<Rightarrow>
                  if is_ValueError e then
                    (Clean,
                     t2 @ [Print ''Failed to parse JSON from analysis response. Raw output:'',
                           Print analysis_response,
                           PrintExn ''Parsing error: '' e])
                  else (Clean, t2 @ [PrintExn ''Error during processing: '' e])))"

text \<open>The script's entry point.\<close>

definition main :: "world \<Rightarrow> outcome \<times> event list" where
  "main w =
     (case extract_article_with_playwright w target_url of
        (Inl e, t) \<Rightarrow> (Uncaught e, t)
      | (Inr (title, article), t) \<Rightarrow>
          (case (title, article) of
             (Some ti, Some ar) \<Rightarrow>
               if ti \<noteq> [] \<and> ar \<noteq> [] then analyze_and_revise w ti ar t else (Clean, t)
           | _ \<Rightarrow> (Clean, t)))"

text \<open>The prompts sent to the model during a run, in order.\<close>

fun invocations :: "event list \<Rightarrow> string list" where
  "invocations [] = []"
| "invocations (Invoke p # es) = p # invocations es"
| "invocations (_ # es) = invocations es"

section \<open>The canonical shape of the specification\<close>

text \<open>
  The record the specification asks for under every aspect key: an object holding a
  non-empty string at \<^verbatim>\<open>assessment\<close> and a non-empty list of strings at
  \<^verbatim>\<open>suggestions\<close>.
\<close>

definition populated_feedback :: "json \<Rightarrow> bool" where
  "populated_feedback v =
     (case v of
        JObj d \<Rightarrow>
          (case map_of d ''assessment'' of Some (JStr a) \<Rightarrow> a \<noteq> [] | _ \<Rightarrow> False)
          \<and> (case map_of d ''suggestions'' of
                Some (JArr xs) \<Rightarrow> xs \<noteq> [] \<and> str_items xs \<noteq> None
              | _ \<Rightarrow> False)
      | _ \<Rightarrow> False)"

text \<open>
  The two sources of suggestions being empty, as the specification lists them: the
  \<^verbatim>\<open>readability\<close> entry is missing or is a record without suggestions or with the
  empty list; the \<^verbatim>\<open>style_guidelines\<close> entry is missing, is the empty list, is a
  record without suggestions or with the empty list, or has an unrecognized type
  (neither list nor record).
\<close>

definition no_readability_suggestions :: "(string \<times> json) list \<Rightarrow> bool" where
  "no_readability_suggestions d =
     (case map_of d ''readability'' of
        None \<Rightarrow> True
      | Some (JObj rd) \<Rightarrow>
          (case map_of rd ''suggestions'' of None \<Rightarrow> True | Some v \<Rightarrow> v = JArr [])
      | Some _ \<Rightarrow> False)"

definition no_style_suggestions :: "(string \<times> json) list \<Rightarrow> bool" where
  "no_style_suggestions d =
     (case map_of d ''style_guidelines'' of
        None \<Rightarrow> True
      | Some (JObj sd) \<Rightarrow>
          (case map_of sd ''suggestions'' of None \<Rightarrow> True | Some v \<Rightarrow> v = JArr [])
      | Some (JArr xs) \<Rightarrow> xs = []
      | Some _ \<Rightarrow> True)"

section \<open>Properties of the extraction\<close>

lemma greedy_close_None: "greedy_close cs = None \<longleftrightarrow> CHR ''}'' \<notin> set cs"
  by (induction cs) (auto split: option.splits)

lemma greedy_close_last:
  "CHR ''}'' \<notin> set q \<Longrightarrow> greedy_close (m @ CHR ''}'' # q) = Some (m @ ''}'')"
proof (induction m)
  case Nil
  then have "greedy_close q = None" by (simp add: greedy_close_None)
  then show ?case by simp
next
  case (Cons c m)
  then show ?case by simp
qed

lemma re_search_skip: "CHR ''{'' \<notin> set p \<Longrightarrow> re_search (p @ rest) = re_search rest"
  by (induction p) auto

lemma re_search_span:
  assumes "CHR ''{'' \<notin> set p" and "CHR ''}'' \<notin> set q"
  shows "re_search (p @ CHR ''{'' # m @ CHR ''}'' # q) = Some (CHR ''{'' # m @ ''}'')"
  using assms by (simp add: re_search_skip greedy_close_last)

lemma re_search_Some_shape:
  "re_search s = Some r \<Longrightarrow> \<exists>p m q. s = p @ CHR ''{'' # m @ CHR ''}'' # q"
proof (induction s)
  case Nil
  then show ?case by simp
next
  case (Cons c cs)
  show ?case
  proof (cases "c = CHR ''{'' \<and> greedy_close cs \<noteq> None")
    case True
    then have "CHR ''}'' \<in> set cs" by (simp add: greedy_close_None)
    then obtain m q where "cs = m @ CHR ''}'' # q" by (auto dest: split_list)
    with True have "c # cs = [] @ CHR ''{'' # m @ CHR ''}'' # q" by simp
    then show ?thesis by blast
  next
    case False
    with Cons.prems have "re_search cs = Some r" by (auto split: if_splits option.splits)
    with Cons.IH obtain p m q where "cs = p @ CHR ''{'' # m @ CHR ''}'' # q" by blast
    then have "c # cs = (c # p) @ CHR ''{'' # m @ CHR ''}'' # q" by simp
    then show ?thesis by blast
  qed
qed

lemma first_open_last_close:
  assumes "text = pre @ CHR ''{'' # mid @ CHR ''}'' # post"
  shows "\<exists>p m q. text = p @ CHR ''{'' # m @ CHR ''}'' # q
            \<and> CHR ''{'' \<notin> set p \<and> CHR ''}'' \<notin> set q"
proof -
  from assms have "CHR ''{'' \<in> set text" by simp
  then obtain p zs where p: "text = p @ CHR ''{'' # zs" "CHR ''{'' \<notin> set p"
    by (auto dest: split_list_first)
  with assms have "p @ CHR ''{'' # zs = pre @ CHR ''{'' # mid @ CHR ''}'' # post" by simp
  with p(2) have "CHR ''}'' \<in> set zs"
    by (auto simp: append_eq_append_conv2 Cons_eq_append_conv append_eq_Cons_conv)
  then obtain m q where "zs = m @ CHR ''}'' # q" "CHR ''}'' \<notin> set q"
    by (auto dest: split_list_last)
  with p show ?thesis by blast
qed

lemma dropWhile_to_open:
  "CHR ''{'' \<notin> set p \<Longrightarrow>
   dropWhile (\<lambda>c. c \<noteq> CHR ''{'') (p @ CHR ''{'' # r) = CHR ''{'' # r"
  by (induction p) auto

lemma span_iff:
  "(\<exists>pre mid post. s = pre @ CHR ''{'' # mid @ CHR ''}'' # post)
     \<longleftrightarrow> CHR ''}'' \<in> set (dropWhile (\<lambda>c. c \<noteq> CHR ''{'') s)"
proof
  assume "\<exists>pre mid post. s = pre @ CHR ''{'' # mid @ CHR ''}'' # post"
  then obtain p m q where "s = p @ CHR ''{'' # m @ CHR ''}'' # q" "CHR ''{'' \<notin> set p"
    using first_open_last_close by blast
  then have "dropWhile (\<lambda>c. c \<noteq> CHR ''{'') s = CHR ''{'' # m @ CHR ''}'' # q"
    by (simp add: dropWhile_to_open)
  then show "CHR ''}'' \<in> set (dropWhile (\<lambda>c. c \<noteq> CHR ''{'') s)" by simp
next
  let ?P = "\<lambda>c. c \<noteq> CHR ''{''"
  assume a: "CHR ''}'' \<in> set (dropWhile ?P s)"
  then have ne: "dropWhile ?P s \<noteq> []" by (metis empty_iff empty_set)
  then have "hd (dropWhile ?P s) = CHR ''{''" using hd_dropWhile [of ?P s] by simp
  with ne obtain zs where zs: "dropWhile ?P s = CHR ''{'' # zs"
    by (cases "dropWhile ?P s") auto
  with a have "CHR ''}'' \<in> set zs" by simp
  then obtain m q where "zs = m @ CHR ''}'' # q" by (auto dest: split_list)
  with zs have "s = takeWhile ?P s @ CHR ''{'' # m @ CHR ''}'' # q"
    by (metis takeWhile_dropWhile_id)
  then show "\<exists>pre mid post. s = pre @ CHR ''{'' # mid @ CHR ''}'' # post" by blast
qed

text \<open>
  C2. When the text holds an opening brace with a closing brace somewhere after it, it
  splits in exactly one way into a part without opening brace, the span from the first
  opening brace to the last closing brace, and a part without closing brace, and
  \<open>extract_json\<close> returns that span; the spec's example text gives the span of its nested
  object. When the text holds no such pair, \<open>extract_json\<close> raises the \<open>ValueError\<close>
  of the source.
\<close>

theorem extract_json_first_to_last:
  "(s = pre @ CHR ''{'' # mid @ CHR ''}'' # post \<longrightarrow>
      (\<exists>p m q. s = p @ CHR ''{'' # m @ CHR ''}'' # q
          \<and> CHR ''{'' \<notin> set p \<and> CHR ''}'' \<notin> set q
          \<and> extract_json s = Inr (CHR ''{'' # m @ ''}'')))
   \<and> (s = p @ CHR ''{'' # m @ CHR ''}'' # q \<and> CHR ''{'' \<notin> set p \<and> CHR ''}'' \<notin> set q \<longrightarrow>
        extract_json s = Inr (CHR ''{'' # m @ ''}''))
   \<and> ((\<nexists>pre mid post. s = pre @ CHR ''{'' # mid @ CHR ''}'' # post) \<longrightarrow>
        extract_json s = Inl (ValueError ''No JSON object found in text''))
   \<and> extract_json ''Here is the result: {\"a\": {\"b\": 1}} Thanks!''
        = Inr ''{\"a\": {\"b\": 1}}''"
proof (intro conjI impI)
  assume "s = pre @ CHR ''{'' # mid @ CHR ''}'' # post"
  then obtain p m q where d: "s = p @ CHR ''{'' # m @ CHR ''}'' # q"
      "CHR ''{'' \<notin> set p" "CHR ''}'' \<notin> set q"
    using first_open_last_close by blast
  then have "extract_json s = Inr (CHR ''{'' # m @ ''}'')"
    by (simp add: extract_json_def re_search_span)
  with d show "\<exists>p m q. s = p @ CHR ''{'' # m @ CHR ''}'' # q
      \<and> CHR ''{'' \<notin> set p \<and> CHR ''}'' \<notin> set q
      \<and> extract_json s = Inr (CHR ''{'' # m @ ''}'')" by blast
next
  assume "s = p @ CHR ''{'' # m @ CHR ''}'' # q \<and> CHR ''{'' \<notin> set p \<and> CHR ''}'' \<notin> set q"
  then show "extract_json s = Inr (CHR ''{'' # m @ ''}'')"
    by (simp add: extract_json_def re_search_span)
next
  assume no: "\<nexists>pre mid post. s = pre @ CHR ''{'' # mid @ CHR ''}'' # post"
  have "re_search s = None"
  proof (cases "re_search s")
    case None
    then show ?thesis .
  next
    case (Some r)
    with no show ?thesis using re_search_Some_shape by blast
  qed
  then show "extract_json s = Inl (ValueError ''No JSON object found in text'')"
    by (simp add: extract_json_def)
next
  show "extract_json ''Here is the result: {\"a\": {\"b\": 1}} Thanks!''
        = Inr ''{\"a\": {\"b\": 1}}''"
    by (simp add: extract_json_def)
qed

theorem extract_json_first_to_last_witness:
  "extract_json ''see {a} and {b}.'' = Inr ''{a} and {b}''
   \<and> extract_json ''} reversed {'' = Inl (ValueError ''No JSON object found in text'')"
proof
  have "''see {a} and {b}.'' = ''see '' @ CHR ''{'' # ''a} and {b'' @ CHR ''}'' # ''.''
        \<and> CHR ''{'' \<notin> set ''see '' \<and> CHR ''}'' \<notin> set ''.''"
    by simp
  then have "extract_json ''see {a} and {b}.'' = Inr (CHR ''{'' # ''a} and {b'' @ ''}'')"
    using extract_json_first_to_last
         [where s = "''see {a} and {b}.''" and p = "''see ''" and m = "''a} and {b''"
            and q = "''.''" and pre = "[]" and mid = "[]" and post = "[]"]
    by blast
  then show "extract_json ''see {a} and {b}.'' = Inr ''{a} and {b}''" by simp
next
  have "\<nexists>pre mid post. ''} reversed {'' = pre @ CHR ''{'' # mid @ CHR ''}'' # post"
    by (simp add: span_iff)
  then show "extract_json ''} reversed {'' = Inl (ValueError ''No JSON object found in text'')"
    using extract_json_first_to_last
         [where s = "''} reversed {''" and p = "[]" and m = "[]"
            and q = "[]" and pre = "[]" and mid = "[]" and post = "[]"]
    by blast
qed

section \<open>Properties of the normalization\<close>

lemma wrap_Some:
  "map_of d k = Some v \<Longrightarrow>
   wrap d k = Inr (JObj [(''assessment'', v),
                         (''suggestions'',
                            JArr [JStr (''Improve '' @ k @ '' clarity''),
                                  JStr (''Use simpler structure for '' @ k)])])"
  by (simp add: wrap_def dict_item_def)

lemma wrap_None: "map_of d k = None \<Longrightarrow> wrap d k = Inl (KeyError k)"
  by (simp add: wrap_def dict_item_def)

text \<open>
  C1, as the code has it. For a raw object with a string at each of the four keys,
  \<open>normalize_analysis_json\<close> returns an object with exactly the four keys. Under
  \<^verbatim>\<open>readability\<close>, \<^verbatim>\<open>structure\<close> and \<^verbatim>\<open>completeness\<close> the record holds the
  original string as its assessment and the two generated strings as its suggestions, so
  it is populated exactly when the original string is not empty. Under
  \<^verbatim>\<open>style_guidelines\<close> the assessment is the constant \<^verbatim>\<open>Review\<close>, not the original
  string, and a suggestions field is present.
\<close>

theorem normalize_flat_wraps:
  assumes "map_of d ''readability'' = Some (JStr r)"
    and "map_of d ''structure'' = Some (JStr s)"
    and "map_of d ''completeness'' = Some (JStr c)"
    and "map_of d ''style_guidelines'' = Some (JStr g)"
  shows "(\<exists>v. normalize_analysis_json (JObj d)
     = Inr (JObj [(''readability'',
                     JObj [(''assessment'', JStr r),
                           (''suggestions'',
                              JArr [JStr ''Improve readability clarity'',
                                    JStr ''Use simpler structure for readability''])]),
                  (''structure'',
                     JObj [(''assessment'', JStr s),
                           (''suggestions'',
                              JArr [JStr ''Improve structure clarity'',
                                    JStr ''Use simpler structure for structure''])]),
                  (''completeness'',
                     JObj [(''assessment'', JStr c),
                           (''suggestions'',
                              JArr [JStr ''Improve completeness clarity'',
                                    JStr ''Use simpler structure for completeness''])]),
                  (''style_guidelines'',
                     JObj [(''assessment'', JStr ''Review''), (''suggestions'', v)])]))
   \<and> (populated_feedback
           (JObj [(''assessment'', JStr r),
                  (''suggestions'',
                     JArr [JStr ''Improve readability clarity'',
                           JStr ''Use simpler structure for readability''])])
         \<longleftrightarrow> r \<noteq> [])
   \<and> (populated_feedback
           (JObj [(''assessment'', JStr s),
                  (''suggestions'',
                     JArr [JStr ''Improve structure clarity'',
                           JStr ''Use simpler structure for structure''])])
         \<longleftrightarrow> s \<noteq> [])
   \<and> (populated_feedback
           (JObj [(''assessment'', JStr c),
                  (''suggestions'',
                     JArr [JStr ''Improve completeness clarity'',
                           JStr ''Use simpler structure for completeness''])])
         \<longleftrightarrow> c \<noteq> [])"
  using assms by (simp add: normalize_analysis_json_def wrap_Some populated_feedback_def)

theorem normalize_flat_wraps_witness:
  "\<exists>v. normalize_analysis_json
      (JObj [(''readability'', JStr ''clear''), (''structure'', JStr ''linear''),
             (''completeness'', JStr ''partial''), (''style_guidelines'', JStr ''tips'')])
     = Inr (JObj [(''readability'',
                     JObj [(''assessment'', JStr ''clear''),
                           (''suggestions'',
                              JArr [JStr ''Improve readability clarity'',
                                    JStr ''Use simpler structure for readability''])]),
                  (''structure'',
                     JObj [(''assessment'', JStr ''linear''),
                           (''suggestions'',
                              JArr [JStr ''Improve structure clarity'',
                                    JStr ''Use simpler structure for structure''])]),
                  (''completeness'',
                     JObj [(''assessment'', JStr ''partial''),
                           (''suggestions'',
                              JArr [JStr ''Improve completeness clarity'',
                                    JStr ''Use simpler structure for completeness''])]),
                  (''style_guidelines'',
                     JObj [(''assessment'', JStr ''Review''), (''suggestions'', v)])])"
  using normalize_flat_wraps
    [where d = "[(''readability'', JStr ''clear''), (''structure'', JStr ''linear''),
                 (''completeness'', JStr ''partial''), (''style_guidelines'', JStr ''tips'')]"
       and r = "''clear''" and s = "''linear''" and c = "''partial''" and g = "''tips''"]
  by simp

text \<open>
  C1, as stated, fails. The flat object below has a string at each of the four keys.
  Its \<^verbatim>\<open>readability\<close> string is empty, and so is the assessment built from it; its
  \<^verbatim>\<open>style_guidelines\<close> string ends up as the suggestions field, which is then a
  string and not a list of strings, next to an assessment that is not the original
  string. Neither record is populated.
\<close>

theorem normalize_flat_counterexample:
  "normalize_analysis_json
      (JObj [(''readability'', JStr []), (''structure'', JStr ''ok''),
             (''completeness'', JStr ''ok''), (''style_guidelines'', JStr ''tips'')])
     = Inr (JObj [(''readability'',
                     JObj [(''assessment'', JStr []),
                           (''suggestions'',
                              JArr [JStr ''Improve readability clarity'',
                                    JStr ''Use simpler structure for readability''])]),
                  (''structure'',
                     JObj [(''assessment'', JStr ''ok''),
                           (''suggestions'',
                              JArr [JStr ''Improve structure clarity'',
                                    JStr ''Use simpler structure for structure''])]),
                  (''completeness'',
                     JObj [(''assessment'', JStr ''ok''),
                           (''suggestions'',
                              JArr [JStr ''Improve completeness clarity'',
                                    JStr ''Use simpler structure for completeness''])]),
                  (''style_guidelines'',
                     JObj [(''assessment'', JStr ''Review''),
                           (''suggestions'', JStr ''tips'')])])
   \<and> \<not> populated_feedback
         (JObj [(''assessment'', JStr []),
                (''suggestions'',
                   JArr [JStr ''Improve readability clarity'',
                         JStr ''Use simpler structure for readability''])])
   \<and> \<not> populated_feedback
         (JObj [(''assessment'', JStr ''Review''), (''suggestions'', JStr ''tips'')])"
  by (simp add: normalize_analysis_json_def wrap_def dict_item_def dict_get_def
        populated_feedback_def)

text \<open>
  C4. When the value at \<^verbatim>\<open>readability\<close> is not a string (a nested record, any other
  value, or no value at all), \<open>normalize_analysis_json\<close> returns the object it was given,
  whatever the other keys hold.
\<close>

theorem normalize_identity_when_readability_not_str:
  "(\<forall>s. map_of d ''readability'' \<noteq> Some (JStr s)) \<Longrightarrow>
   normalize_analysis_json (JObj d) = Inr (JObj d)"
  by (auto simp: normalize_analysis_json_def split: option.splits json.splits)

theorem normalize_identity_when_readability_not_str_witness:
  "normalize_analysis_json
      (JObj [(''readability'',
                JObj [(''assessment'', JStr ''clear''), (''suggestions'', JArr [JStr ''shorten''])]),
             (''completeness'', JStr ''fine'')])
    = Inr (JObj [(''readability'',
                JObj [(''assessment'', JStr ''clear''), (''suggestions'', JArr [JStr ''shorten''])]),
             (''completeness'', JStr ''fine'')])
   \<and> normalize_analysis_json (JObj [(''completeness'', JStr ''fine'')])
       = Inr (JObj [(''completeness'', JStr ''fine'')])"
proof
  show "normalize_analysis_json
      (JObj [(''readability'',
                JObj [(''assessment'', JStr ''clear''), (''suggestions'', JArr [JStr ''shorten''])]),
             (''completeness'', JStr ''fine'')])
    = Inr (JObj [(''readability'',
                JObj [(''assessment'', JStr ''clear''), (''suggestions'', JArr [JStr ''shorten''])]),
             (''completeness'', JStr ''fine'')])"
    by (rule normalize_identity_when_readability_not_str) simp
next
  show "normalize_analysis_json (JObj [(''completeness'', JStr ''fine'')])
       = Inr (JObj [(''completeness'', JStr ''fine'')])"
    by (rule normalize_identity_when_readability_not_str) simp
qed

text \<open>
  C9. When the value at \<^verbatim>\<open>readability\<close> is a string and the key \<^verbatim>\<open>structure\<close> or
  the key \<^verbatim>\<open>completeness\<close> is missing, \<open>normalize_analysis_json\<close> raises
  \<open>KeyError\<close> for the first of the two that is missing. A missing
  \<^verbatim>\<open>style_guidelines\<close> key raises nothing: its suggestions default to the empty list.
\<close>

theorem normalize_flat_requires_keys:
  "(map_of d ''readability'' = Some (JStr r)
      \<and> (map_of d ''structure'' = None \<or> map_of d ''completeness'' = None) \<longrightarrow>
    normalize_analysis_json (JObj d) =
      Inl (KeyError (if map_of d ''structure'' = None then ''structure'' else ''completeness'')))
   \<and> (map_of d ''readability'' = Some (JStr r) \<and> map_of d ''structure'' = Some s
        \<and> map_of d ''completeness'' = Some c \<and> map_of d ''style_guidelines'' = None \<longrightarrow>
      (\<exists>out. normalize_analysis_json (JObj d) = Inr (JObj out)
         \<and> map_of out ''style_guidelines''
             = Some (JObj [(''assessment'', JStr ''Review''), (''suggestions'', JArr [])])))"
proof (intro conjI impI)
  assume a: "map_of d ''readability'' = Some (JStr r)
      \<and> (map_of d ''structure'' = None \<or> map_of d ''completeness'' = None)"
  show "normalize_analysis_json (JObj d) =
      Inl (KeyError (if map_of d ''structure'' = None then ''structure'' else ''completeness''))"
  proof (cases "map_of d ''structure''")
    case None
    with a show ?thesis
      by (simp add: normalize_analysis_json_def wrap_Some wrap_None)
  next
    case (Some sv)
    with a have "map_of d ''completeness'' = None" by simp
    with a Some show ?thesis
      by (simp add: normalize_analysis_json_def wrap_Some wrap_None)
  qed
next
  assume "map_of d ''readability'' = Some (JStr r) \<and> map_of d ''structure'' = Some s
        \<and> map_of d ''completeness'' = Some c \<and> map_of d ''style_guidelines'' = None"
  then show "\<exists>out. normalize_analysis_json (JObj d) = Inr (JObj out)
         \<and> map_of out ''style_guidelines''
             = Some (JObj [(''assessment'', JStr ''Review''), (''suggestions'', JArr [])])"
    by (simp add: normalize_analysis_json_def wrap_Some dict_get_def)
qed

theorem normalize_flat_requires_keys_witness:
  "normalize_analysis_json (JObj [(''readability'', JStr ''ok'')]) = Inl (KeyError ''structure'')
   \<and> normalize_analysis_json (JObj [(''readability'', JStr ''ok''), (''structure'', JStr ''ok'')])
       = Inl (KeyError ''completeness'')
   \<and> (\<exists>out. normalize_analysis_json
          (JObj [(''readability'', JStr ''ok''), (''structure'', JStr ''ok''),
                 (''completeness'', JStr ''ok'')]) = Inr (JObj out)
         \<and> map_of out ''style_guidelines''
             = Some (JObj [(''assessment'', JStr ''Review''), (''suggestions'', JArr [])]))"
proof (intro conjI)
  show "normalize_analysis_json (JObj [(''readability'', JStr ''ok'')]) = Inl (KeyError ''structure'')"
    using normalize_flat_requires_keys
      [where d = "[(''readability'', JStr ''ok'')]" and r = "''ok''" and s = JNull and c = JNull]
    by simp
next
  show "normalize_analysis_json (JObj [(''readability'', JStr ''ok''), (''structure'', JStr ''ok'')])
       = Inl (KeyError ''completeness'')"
    using normalize_flat_requires_keys
      [where d = "[(''readability'', JStr ''ok''), (''structure'', JStr ''ok'')]"
         and r = "''ok''" and s = JNull and c = JNull]
    by simp
next
  show "\<exists>out. normalize_analysis_json
          (JObj [(''readability'', JStr ''ok''), (''structure'', JStr ''ok''),
                 (''completeness'', JStr ''ok'')]) = Inr (JObj out)
         \<and> map_of out ''style_guidelines''
             = Some (JObj [(''assessment'', JStr ''Review''), (''suggestions'', JArr [])])"
    using normalize_flat_requires_keys
      [where d = "[(''readability'', JStr ''ok''), (''structure'', JStr ''ok''),
                 (''completeness'', JStr ''ok'')]"
         and r = "''ok''" and s = "JStr ''ok''" and c = "JStr ''ok''"]
    by simp
qed

section \<open>Properties of the revision prompt\<close>

lemma str_items_map_JStr: "str_items (map JStr xs) = Some xs"
  by (induction xs) auto

lemma sublist_bullet_join:
  "x \<in> set xs \<Longrightarrow> sublist (sep @ x) (sep @ join sep xs)"
proof (induction sep xs rule: join.induct)
  case (1 sep)
  then show ?case by simp
next
  case (2 sep y)
  then show ?case by simp
next
  case (3 sep y z zs)
  show ?case
  proof (cases "x = y")
    case True
    have "sep @ join sep (y # z # zs) = [] @ (sep @ x) @ (sep @ join sep (z # zs))"
      using True by simp
    then show ?thesis unfolding sublist_def by blast
  next
    case False
    with 3 have "sublist (sep @ x) (sep @ join sep (z # zs))" by simp
    then obtain ps ss where "sep @ join sep (z # zs) = ps @ (sep @ x) @ ss"
      unfolding sublist_def by blast
    then have "sep @ join sep (y # z # zs) = (sep @ y @ ps) @ (sep @ x) @ ss" by simp
    then show ?thesis unfolding sublist_def by blast
  qed
qed

lemma revision_template_inject:
  "revision_template a s = revision_template a t \<longleftrightarrow> s = t"
  by (simp add: revision_template_def)

lemma sublist_revision_template: "sublist u s \<Longrightarrow> sublist u (revision_template a s)"
proof -
  assume "sublist u s"
  then obtain ps ss where "s = ps @ u @ ss" unfolding sublist_def by blast
  then have "revision_template a s =
     (revision_prompt_head @ a @ revision_prompt_mid @ ps) @ u @ (ss @ revision_prompt_tail)"
    by (simp add: revision_template_def)
  then show ?thesis unfolding sublist_def by blast
qed

lemma build_revision_prompt_of_strings:
  "combined_suggestions a = Inr (JArr (map JStr xs)) \<Longrightarrow>
   build_revision_prompt article a =
     Inr (revision_template article
            (if xs = [] then ''No suggestions provided.''
             else ''\<newline>- '' @ join ''\<newline>- '' xs))"
  by (simp add: build_revision_prompt_def suggestions_text_def str_items_map_JStr)

lemma combined_of_shapes:
  assumes "(map_of d ''readability'' = None \<and> rs = [])
       \<or> (\<exists>rd. map_of d ''readability'' = Some (JObj rd)
             \<and> ((map_of rd ''suggestions'' = None \<and> rs = [])
                \<or> map_of rd ''suggestions'' = Some (JArr (map JStr rs))))"
    and "map_of d ''style_guidelines'' = Some (JArr (map JStr ss))
       \<or> (\<exists>sd. map_of d ''style_guidelines'' = Some (JObj sd)
             \<and> map_of sd ''suggestions'' = Some (JArr (map JStr ss)))"
  shows "combined_suggestions (JObj d) = Inr (JArr (map JStr (rs @ ss)))"
  using assms
  by (auto simp: combined_suggestions_def readability_suggestions_def style_suggestions_def
        py_get_def dict_get_def)

lemma combined_of_empty_shapes:
  assumes "no_readability_suggestions d" and "no_style_suggestions d"
  shows "combined_suggestions (JObj d) = Inr (JArr [])"
  using assms
  by (auto simp: combined_suggestions_def readability_suggestions_def style_suggestions_def
        py_get_def dict_get_def no_readability_suggestions_def no_style_suggestions_def
        split: option.splits json.splits)

lemma str_items_length: "str_items vs = Some ss \<Longrightarrow> length ss = length vs"
  by (induction vs arbitrary: ss rule: str_items.induct) (auto split: option.splits)

lemma py_join_truthy_items:
  assumes "truthy c" and "py_join sep c = Inr s"
  shows "\<exists>items. items \<noteq> [] \<and> s = join sep items"
proof (cases c)
  case (JArr vs)
  with assms obtain ss where ss: "str_items vs = Some ss" "s = join sep ss"
    by (auto split: option.splits)
  from assms JArr have "vs \<noteq> []" by simp
  with ss(1) have "ss \<noteq> []" using str_items_length by fastforce
  with ss(2) show ?thesis by blast
next
  case (JStr t)
  with assms have "map (\<lambda>c. [c]) t \<noteq> [] \<and> s = join sep (map (\<lambda>c. [c]) t)" by auto
  then show ?thesis by blast
next
  case (JObj d)
  with assms have "map fst d \<noteq> [] \<and> s = join sep (map fst d)" by auto
  then show ?thesis by blast
qed (use assms in auto)

text \<open>
  C5. The combined suggestions are the readability suggestions followed by the style
  suggestions, and the style suggestions are found by inspecting the type of the
  \<^verbatim>\<open>style_guidelines\<close> value: a bare list is taken as it is, a record gives its
  \<^verbatim>\<open>suggestions\<close> field. Every combined suggestion appears in the prompt as a bullet.
  Here the readability suggestions \<open>rs\<close> are those of a record, or none when the entry
  or its field is missing.
\<close>

theorem build_revision_prompt_combines:
  assumes "(map_of d ''readability'' = None \<and> rs = [])
       \<or> (\<exists>rd. map_of d ''readability'' = Some (JObj rd)
             \<and> ((map_of rd ''suggestions'' = None \<and> rs = [])
                \<or> map_of rd ''suggestions'' = Some (JArr (map JStr rs))))"
    and "map_of d ''style_guidelines'' = Some (JArr (map JStr ss))
       \<or> (\<exists>sd. map_of d ''style_guidelines'' = Some (JObj sd)
             \<and> map_of sd ''suggestions'' = Some (JArr (map JStr ss)))"
  shows "combined_suggestions (JObj d) = Inr (JArr (map JStr (rs @ ss)))
    \<and> build_revision_prompt article (JObj d) =
        Inr (revision_template article
               (if rs @ ss = [] then ''No suggestions provided.''
                else ''\<newline>- '' @ join ''\<newline>- '' (rs @ ss)))
    \<and> (\<forall>x \<in> set (rs @ ss).
          \<exists>p. build_revision_prompt article (JObj d) = Inr p \<and> sublist (''\<newline>- '' @ x) p)"
proof (intro conjI ballI)
  show c: "combined_suggestions (JObj d) = Inr (JArr (map JStr (rs @ ss)))"
    using assms by (rule combined_of_shapes)
  then show b: "build_revision_prompt article (JObj d) =
        Inr (revision_template article
               (if rs @ ss = [] then ''No suggestions provided.''
                else ''\<newline>- '' @ join ''\<newline>- '' (rs @ ss)))"
    by (rule build_revision_prompt_of_strings)
  fix x assume x: "x \<in> set (rs @ ss)"
  then have ne: "rs @ ss \<noteq> []" by auto
  from x have "sublist (''\<newline>- '' @ x) (''\<newline>- '' @ join ''\<newline>- '' (rs @ ss))"
    by (rule sublist_bullet_join)
  then have "sublist (''\<newline>- '' @ x)
               (revision_template article (''\<newline>- '' @ join ''\<newline>- '' (rs @ ss)))"
    by (rule sublist_revision_template)
  moreover from b ne have "build_revision_prompt article (JObj d) =
      Inr (revision_template article (''\<newline>- '' @ join ''\<newline>- '' (rs @ ss)))"
    by (simp only: if_False)
  ultimately show "\<exists>p. build_revision_prompt article (JObj d) = Inr p
                    \<and> sublist (''\<newline>- '' @ x) p"
    by blast
qed

theorem build_revision_prompt_combines_witness:
  "combined_suggestions
      (JObj [(''readability'',
                JObj [(''assessment'', JStr ''clear''), (''suggestions'', JArr [JStr ''shorten''])]),
             (''style_guidelines'', JArr [JStr ''tip1'', JStr ''tip2''])])
     = Inr (JArr [JStr ''shorten'', JStr ''tip1'', JStr ''tip2''])
   \<and> (\<exists>p. build_revision_prompt ''Body''
              (JObj [(''readability'',
                        JObj [(''assessment'', JStr ''clear''),
                              (''suggestions'', JArr [JStr ''shorten''])]),
                     (''style_guidelines'', JArr [JStr ''tip1'', JStr ''tip2''])]) = Inr p
          \<and> sublist ''\<newline>- tip1'' p \<and> sublist ''\<newline>- tip2'' p)
   \<and> combined_suggestions
      (JObj [(''readability'',
                JObj [(''assessment'', JStr ''clear''), (''suggestions'', JArr [JStr ''shorten''])]),
             (''style_guidelines'', JObj [(''suggestions'', JArr [JStr ''tip3''])])])
     = Inr (JArr [JStr ''shorten'', JStr ''tip3''])
   \<and> (\<exists>p. build_revision_prompt ''Body''
              (JObj [(''readability'',
                        JObj [(''assessment'', JStr ''clear''),
                              (''suggestions'', JArr [JStr ''shorten''])]),
                     (''style_guidelines'', JObj [(''suggestions'', JArr [JStr ''tip3''])])]) = Inr p
          \<and> sublist ''\<newline>- tip3'' p)"
proof -
  let ?r = "(''readability'',
              JObj [(''assessment'', JStr ''clear''), (''suggestions'', JArr [JStr ''shorten''])])"
  let ?d1 = "[?r, (''style_guidelines'', JArr [JStr ''tip1'', JStr ''tip2''])]"
  let ?d2 = "[?r, (''style_guidelines'', JObj [(''suggestions'', JArr [JStr ''tip3''])])]"
  have r1: "(map_of ?d1 ''readability'' = None \<and> [''shorten''] = [])
       \<or> (\<exists>rd. map_of ?d1 ''readability'' = Some (JObj rd)
             \<and> ((map_of rd ''suggestions'' = None \<and> [''shorten''] = [])
                \<or> map_of rd ''suggestions'' = Some (JArr (map JStr [''shorten'']))))"
    by simp
  have s1: "map_of ?d1 ''style_guidelines'' = Some (JArr (map JStr [''tip1'', ''tip2'']))
       \<or> (\<exists>sd. map_of ?d1 ''style_guidelines'' = Some (JObj sd)
             \<and> map_of sd ''suggestions'' = Some (JArr (map JStr [''tip1'', ''tip2''])))"
    by simp
  have r2: "(map_of ?d2 ''readability'' = None \<and> [''shorten''] = [])
       \<or> (\<exists>rd. map_of ?d2 ''readability'' = Some (JObj rd)
             \<and> ((map_of rd ''suggestions'' = None \<and> [''shorten''] = [])
                \<or> map_of rd ''suggestions'' = Some (JArr (map JStr [''shorten'']))))"
    by simp
  have s2: "map_of ?d2 ''style_guidelines'' = Some (JArr (map JStr [''tip3'']))
       \<or> (\<exists>sd. map_of ?d2 ''style_guidelines'' = Some (JObj sd)
             \<and> map_of sd ''suggestions'' = Some (JArr (map JStr [''tip3''])))"
    by simp
  note t1 = build_revision_prompt_combines [OF r1 s1, of "''Body''"]
  note t2 = build_revision_prompt_combines [OF r2 s2, of "''Body''"]
  from t1 have c1: "combined_suggestions (JObj ?d1)
      = Inr (JArr [JStr ''shorten'', JStr ''tip1'', JStr ''tip2''])"
    by simp
  from t1 have a1: "\<forall>x \<in> set ([''shorten''] @ [''tip1'', ''tip2'']).
      \<exists>p. build_revision_prompt ''Body'' (JObj ?d1) = Inr p \<and> sublist (''\<newline>- '' @ x) p"
    by (rule conjunct2 [THEN conjunct2])
  then have "\<exists>p. build_revision_prompt ''Body'' (JObj ?d1) = Inr p \<and> sublist (''\<newline>- '' @ ''tip1'') p"
    and "\<exists>p. build_revision_prompt ''Body'' (JObj ?d1) = Inr p \<and> sublist (''\<newline>- '' @ ''tip2'') p"
    by (simp_all only: list.set append.simps ball_simps insert_iff simp_thms)
  then have b1: "\<exists>p. build_revision_prompt ''Body'' (JObj ?d1) = Inr p
      \<and> sublist ''\<newline>- tip1'' p \<and> sublist ''\<newline>- tip2'' p"
    by (metis sum.inject(2) append.simps)
  from t2 have c2: "combined_suggestions (JObj ?d2) = Inr (JArr [JStr ''shorten'', JStr ''tip3''])"
    by simp
  from t2 have a2: "\<forall>x \<in> set ([''shorten''] @ [''tip3'']).
      \<exists>p. build_revision_prompt ''Body'' (JObj ?d2) = Inr p \<and> sublist (''\<newline>- '' @ x) p"
    by (rule conjunct2 [THEN conjunct2])
  then have "\<exists>p. build_revision_prompt ''Body'' (JObj ?d2) = Inr p \<and> sublist (''\<newline>- '' @ ''tip3'') p"
    by (simp only: list.set append.simps ball_simps insert_iff simp_thms)
  then have b2: "\<exists>p. build_revision_prompt ''Body'' (JObj ?d2) = Inr p \<and> sublist ''\<newline>- tip3'' p"
    by (simp only: append.simps)
  from c1 b1 c2 b2 show ?thesis by (intro conjI)
qed

text \<open>
  C8. When both sources are empty in one of the ways the specification lists, the
  combined list is empty; whenever the combined value is empty, the prompt is the template
  filled with the marker \<^verbatim>\<open>No suggestions provided.\<close>, which it therefore contains. A
  prompt with bullets is built from at least one item only, so the prompt never is the
  template filled with a bare bullet prefix.
\<close>

theorem build_revision_prompt_no_suggestions:
  "(no_readability_suggestions d \<and> no_style_suggestions d \<longrightarrow>
      combined_suggestions (JObj d) = Inr (JArr [])
      \<and> build_revision_prompt article (JObj d)
          = Inr (revision_template article ''No suggestions provided.''))
   \<and> (combined_suggestions a = Inr c \<and> \<not> truthy c \<longrightarrow>
        build_revision_prompt article a
          = Inr (revision_template article ''No suggestions provided.''))
   \<and> (combined_suggestions a = Inr c \<and> truthy c \<and> build_revision_prompt article a = Inr p \<longrightarrow>
        (\<exists>items. items \<noteq> []
            \<and> p = revision_template article (''\<newline>- '' @ join ''\<newline>- '' items)))
   \<and> sublist ''No suggestions provided.''
        (revision_template article ''No suggestions provided.'')
   \<and> revision_template article ''No suggestions provided.''
        \<noteq> revision_template article (''\<newline>- '' @ join ''\<newline>- '' [])"
proof (intro conjI impI)
  assume e: "no_readability_suggestions d \<and> no_style_suggestions d"
  then show c: "combined_suggestions (JObj d) = Inr (JArr [])"
    by (simp add: combined_of_empty_shapes)
  then show "build_revision_prompt article (JObj d)
          = Inr (revision_template article ''No suggestions provided.'')"
    by (simp add: build_revision_prompt_def suggestions_text_def)
next
  assume "combined_suggestions a = Inr c \<and> \<not> truthy c"
  then show "build_revision_prompt article a
          = Inr (revision_template article ''No suggestions provided.'')"
    by (simp add: build_revision_prompt_def suggestions_text_def)
next
  assume a: "combined_suggestions a = Inr c \<and> truthy c \<and> build_revision_prompt article a = Inr p"
  then obtain s where s: "py_join ''\<newline>- '' c = Inr s"
      "p = revision_template article (''\<newline>- '' @ s)"
    by (auto simp: build_revision_prompt_def suggestions_text_def split: sum.splits)
  from a s(1) obtain items where "items \<noteq> []" "s = join ''\<newline>- '' items"
    using py_join_truthy_items by blast
  with s(2) show "\<exists>items. items \<noteq> []
            \<and> p = revision_template article (''\<newline>- '' @ join ''\<newline>- '' items)"
    by blast
next
  have "sublist ''No suggestions provided.'' ''No suggestions provided.''" by simp
  then show "sublist ''No suggestions provided.''
        (revision_template article ''No suggestions provided.'')"
    by (rule sublist_revision_template)
next
  show "revision_template article ''No suggestions provided.''
        \<noteq> revision_template article (''\<newline>- '' @ join ''\<newline>- '' [])"
    by (simp add: revision_template_inject)
qed

theorem build_revision_prompt_no_suggestions_witness:
  "build_revision_prompt ''Body''
      (JObj [(''readability'', JObj [(''assessment'', JStr ''clear''), (''suggestions'', JArr [])]),
             (''style_guidelines'', JArr [])])
     = Inr (revision_template ''Body'' ''No suggestions provided.'')
   \<and> build_revision_prompt ''Body'' (JObj [(''style_guidelines'', JStr ''be brief'')])
     = Inr (revision_template ''Body'' ''No suggestions provided.'')
   \<and> build_revision_prompt ''Body'' (JObj [(''style_guidelines'', JArr [JStr ''tip1''])])
     = Inr (revision_template ''Body'' ''\<newline>- tip1'')
   \<and> (\<exists>items. items \<noteq> []
          \<and> revision_template ''Body'' ''\<newline>- tip1''
              = revision_template ''Body'' (''\<newline>- '' @ join ''\<newline>- '' items))"
proof (intro conjI)
  let ?d1 = "[(''readability'', JObj [(''assessment'', JStr ''clear''), (''suggestions'', JArr [])]),
              (''style_guidelines'', JArr [])]"
  have "no_readability_suggestions ?d1 \<and> no_style_suggestions ?d1"
    by (simp add: no_readability_suggestions_def no_style_suggestions_def)
  with build_revision_prompt_no_suggestions [where d = ?d1 and article = "''Body''"
         and a = JNull and c = JNull and p = "[]"]
  show "build_revision_prompt ''Body'' (JObj ?d1)
     = Inr (revision_template ''Body'' ''No suggestions provided.'')"
    by blast
next
  let ?a = "JObj [(''style_guidelines'', JStr ''be brief'')]"
  have "combined_suggestions ?a = Inr (JArr []) \<and> \<not> truthy (JArr [])"
    by (simp add: combined_suggestions_def readability_suggestions_def style_suggestions_def
          py_get_def dict_get_def)
  with build_revision_prompt_no_suggestions [where d = "[]" and article = "''Body''"
         and a = ?a and c = "JArr []" and p = "[]"]
  show "build_revision_prompt ''Body'' ?a
     = Inr (revision_template ''Body'' ''No suggestions provided.'')"
    by blast
next
  let ?a = "JObj [(''style_guidelines'', JArr [JStr ''tip1''])]"
  let ?p = "revision_template ''Body'' ''\<newline>- tip1''"
  have c: "combined_suggestions ?a = Inr (JArr [JStr ''tip1'']) \<and> truthy (JArr [JStr ''tip1''])"
    by (simp add: combined_suggestions_def readability_suggestions_def style_suggestions_def
          py_get_def dict_get_def)
  have b: "build_revision_prompt ''Body'' ?a = Inr ?p"
    using c by (simp add: build_revision_prompt_def suggestions_text_def)
  with c build_revision_prompt_no_suggestions [where d = "[]" and article = "''Body''"
         and a = ?a and c = "JArr [JStr ''tip1'']" and p = ?p]
  have i: "\<exists>items. items \<noteq> []
          \<and> ?p = revision_template ''Body'' (''\<newline>- '' @ join ''\<newline>- '' items)"
    by blast
  from b show "build_revision_prompt ''Body'' ?a = Inr ?p" .
  from i show "\<exists>items. items \<noteq> []
          \<and> ?p = revision_template ''Body'' (''\<newline>- '' @ join ''\<newline>- '' items)" .
qed

section \<open>Properties of the run\<close>

lemma invocations_append: "invocations (xs @ ys) = invocations xs @ invocations ys"
  by (induction xs rule: invocations.induct) auto

lemma extract_no_invocations:
  "invocations (snd (extract_article_with_playwright w url)) = []"
  by (simp add: extract_article_with_playwright_def Let_def split: option.splits sum.splits)

lemma extract_success_trace:
  "extract_article_with_playwright w url = (Inr (Some ti, Some ar), t) \<Longrightarrow>
   t = [Launch, NewPage,
        Print ''Opening browser. Please solve the CAPTCHA manually if prompted...'',
        Goto url, WaitForSelector article_selector, Close]"
  by (auto simp: extract_article_with_playwright_def Let_def split: option.splits sum.splits)

lemma try_body_extends: "\<exists>u. snd (try_body w ar resp t) = t @ u"
  by (simp add: try_body_def Let_def split: sum.splits)

lemma extract_json_error:
  "extract_json resp = Inl e \<Longrightarrow> e = ValueError ''No JSON object found in text''"
  by (auto simp: extract_json_def split: option.splits)

lemma analyze_and_revise_extends:
  "\<exists>u. snd (analyze_and_revise w ti ar t) =
     (t @ [Print (''Title: '' @ ti),
           Print (''\<newline>Article Preview:\<newline> '' @ take 1000 ar),
           Print ''\<newline>Sending article to Ollama for analysis...'',
           Invoke (build_analysis_prompt ti ar)]) @ u"
proof (cases "query_ollama w 0 (build_analysis_prompt ti ar)")
  case (Inl e)
  then show ?thesis by (simp add: analyze_and_revise_def Let_def)
next
  case (Inr resp)
  let ?t1 = "t @ [Print (''Title: '' @ ti),
           Print (''\<newline>Article Preview:\<newline> '' @ take 1000 ar),
           Print ''\<newline>Sending article to Ollama for analysis...'',
           Invoke (build_analysis_prompt ti ar)]"
  obtain r t2 where tb: "try_body w ar resp ?t1 = (r, t2)" by (cases "try_body w ar resp ?t1")
  then obtain u where u: "t2 = ?t1 @ u" using try_body_extends [of w ar resp ?t1] by auto
  show ?thesis
  proof (cases r)
    case (Inl x)
    have "snd (analyze_and_revise w ti ar t) =
            ?t1 @ (u @ (if is_ValueError x
                        then [Print ''Failed to parse JSON from analysis response. Raw output:'',
                              Print resp, PrintExn ''Parsing error: '' x]
                        else [PrintExn ''Error during processing: '' x]))"
      using Inr tb u Inl by (simp add: analyze_and_revise_def Let_def)
    then show ?thesis by blast
  next
    case (Inr y)
    have "snd (analyze_and_revise w ti ar t) = ?t1 @ u"
      using \<open>query_ollama w 0 (build_analysis_prompt ti ar) = Inr resp\<close> tb u Inr
      by (simp add: analyze_and_revise_def Let_def)
    then show ?thesis by blast
  qed
qed

text \<open>
  C7. When \<^verbatim>\<open>wait_for_selector\<close> raises, \<open>extract_article_with_playwright\<close> prints
  the guidance, closes the browser and returns \<^verbatim>\<open>(None, None)\<close>; the run then ends
  cleanly with nothing more printed and without any call of the model.
\<close>

theorem timeout_stops_before_analyzer:
  assumes "goto_raises w = None" and "wait_raises w = Some e"
  shows "extract_article_with_playwright w url =
           (Inr (None, None),
            [Launch, NewPage,
             Print ''Opening browser. Please solve the CAPTCHA manually if prompted...'',
             Goto url, WaitForSelector article_selector,
             Print ''Timeout waiting for article content. Try solving the CAPTCHA and re-run.'',
             Close])
    \<and> main w =
           (Clean,
            [Launch, NewPage,
             Print ''Opening browser. Please solve the CAPTCHA manually if prompted...'',
             Goto target_url, WaitForSelector article_selector,
             Print ''Timeout waiting for article content. Try solving the CAPTCHA and re-run.'',
             Close])
    \<and> invocations (snd (main w)) = []"
  using assms by (simp add: main_def extract_article_with_playwright_def)

theorem timeout_stops_before_analyzer_witness:
  "main \<lparr>goto_raises = None, wait_raises = Some (CollaboratorError ''Timeout 60000ms exceeded.''),
         soup_title = None, soup_article = None,
         ollama_run = (\<lambda>n p. Inr \<lparr>returncode = 0, stdout = ''{}'', stderr = []\<rparr>),
         json_loads = (\<lambda>s. Inr (JObj []))\<rparr>
     = (Clean,
        [Launch, NewPage,
         Print ''Opening browser. Please solve the CAPTCHA manually if prompted...'',
         Goto target_url, WaitForSelector article_selector,
         Print ''Timeout waiting for article content. Try solving the CAPTCHA and re-run.'',
         Close])"
  using timeout_stops_before_analyzer
    [where w = "\<lparr>goto_raises = None, wait_raises = Some (CollaboratorError ''Timeout 60000ms exceeded.''),
         soup_title = None, soup_article = None,
         ollama_run = (\<lambda>n p. Inr \<lparr>returncode = 0, stdout = ''{}'', stderr = []\<rparr>),
         json_loads = (\<lambda>s. Inr (JObj []))\<rparr>"
       and e = "CollaboratorError ''Timeout 60000ms exceeded.''" and url = target_url]
  by simp

lemma strip_braced: "strip (CHR ''{'' # m @ ''}'') = CHR ''{'' # m @ ''}''"
  by (simp add: strip_def py_isspace_def)

lemma extract_json_braced: "extract_json (CHR ''{'' # m @ ''}'') = Inr (CHR ''{'' # m @ ''}'')"
  using re_search_span [of "[]" "[]" m] by (simp add: extract_json_def)

text \<open>
  C6, as the code has it. After a successful extraction and a first model call that
  returned, when \<open>extract_json\<close> finds no span or the parser raises on the span, the run
  ends cleanly and the analysis prompt is the only prompt ever sent to the model. When the
  failure is a \<^verbatim>\<open>ValueError\<close>, as the one of \<open>extract_json\<close> and a
  \<^verbatim>\<open>JSONDecodeError\<close> of the parser are, the run prints the failure notice, the raw
  model output and the error. When the parser fails with an exception of another class,
  the run prints \<^verbatim>\<open>Error during processing:\<close> with the exception and nothing else.
\<close>

theorem parse_failure_halts_before_reviser:
  assumes "extract_article_with_playwright w target_url = (Inr (Some ti, Some ar), t)"
    and "ti \<noteq> []" and "ar \<noteq> []"
    and "query_ollama w 0 (build_analysis_prompt ti ar) = Inr resp"
    and "extract_json resp = Inl e
         \<or> (\<exists>js. extract_json resp = Inr js \<and> json_loads w js = Inl e)"
  shows "fst (main w) = Clean
    \<and> invocations (snd (main w)) = [build_analysis_prompt ti ar]
    \<and> (is_ValueError e \<longrightarrow>
         main w =
           (Clean,
            t @ [Print (''Title: '' @ ti),
                 Print (''\<newline>Article Preview:\<newline> '' @ take 1000 ar),
                 Print ''\<newline>Sending article to Ollama for analysis...'',
                 Invoke (build_analysis_prompt ti ar),
                 Print ''Failed to parse JSON from analysis response. Raw output:'',
                 Print resp,
                 PrintExn ''Parsing error: '' e]))
    \<and> (\<not> is_ValueError e \<longrightarrow>
         main w =
           (Clean,
            t @ [Print (''Title: '' @ ti),
                 Print (''\<newline>Article Preview:\<newline> '' @ take 1000 ar),
                 Print ''\<newline>Sending article to Ollama for analysis...'',
                 Invoke (build_analysis_prompt ti ar),
                 PrintExn ''Error during processing: '' e]))
    \<and> (extract_json resp = Inl e \<longrightarrow> is_ValueError e)"
proof -
  let ?t1 = "t @ [Print (''Title: '' @ ti),
                 Print (''\<newline>Article Preview:\<newline> '' @ take 1000 ar),
                 Print ''\<newline>Sending article to Ollama for analysis...'',
                 Invoke (build_analysis_prompt ti ar)]"
  from assms(5) have tb: "try_body w ar resp ?t1 = (Inl e, ?t1)"
    by (auto simp: try_body_def)
  from assms(1) have inv: "invocations t = []"
    using extract_no_invocations [of w target_url] by simp
  have m: "main w = analyze_and_revise w ti ar t"
    using assms(1-3) by (simp add: main_def)
  have v: "extract_json resp = Inl e \<longrightarrow> is_ValueError e"
    by (auto dest: extract_json_error)
  show ?thesis
  proof (cases "is_ValueError e")
    case True
    with m assms(4) tb inv v show ?thesis
      by (simp add: analyze_and_revise_def Let_def invocations_append)
  next
    case False
    with m assms(4) tb inv v show ?thesis
      by (simp add: analyze_and_revise_def Let_def invocations_append)
  qed
qed

theorem parse_failure_halts_before_reviser_witness:
  "main \<lparr>goto_raises = None, wait_raises = None,
         soup_title = Some (Some ''Sample Title''), soup_article = Some ''Para one.'',
         ollama_run = (\<lambda>n p. Inr \<lparr>returncode = 0, stdout = ''I cannot help.'', stderr = []\<rparr>),
         json_loads = (\<lambda>s. Inr (JObj []))\<rparr>
     = (Clean,
        [Launch, NewPage,
         Print ''Opening browser. Please solve the CAPTCHA manually if prompted...'',
         Goto target_url, WaitForSelector article_selector, Close,
         Print ''Title: Sample Title'',
         Print ''\<newline>Article Preview:\<newline> Para one.'',
         Print ''\<newline>Sending article to Ollama for analysis...'',
         Invoke (build_analysis_prompt ''Sample Title'' ''Para one.''),
         Print ''Failed to parse JSON from analysis response. Raw output:'',
         Print ''I cannot help.'',
         PrintExn ''Parsing error: '' (ValueError ''No JSON object found in text'')])
   \<and> main \<lparr>goto_raises = None, wait_raises = None,
         soup_title = Some (Some ''Sample Title''), soup_article = Some ''Para one.'',
         ollama_run = (\<lambda>n p. Inr \<lparr>returncode = 0, stdout = ''{broken}'', stderr = []\<rparr>),
         json_loads = (\<lambda>s. Inl (JSONDecodeError ''Expecting property name''))\<rparr>
     = (Clean,
        [Launch, NewPage,
         Print ''Opening browser. Please solve the CAPTCHA manually if prompted...'',
         Goto target_url, WaitForSelector article_selector, Close,
         Print ''Title: Sample Title'',
         Print ''\<newline>Article Preview:\<newline> Para one.'',
         Print ''\<newline>Sending article to Ollama for analysis...'',
         Invoke (build_analysis_prompt ''Sample Title'' ''Para one.''),
         Print ''Failed to parse JSON from analysis response. Raw output:'',
         Print ''{broken}'',
         PrintExn ''Parsing error: '' (JSONDecodeError ''Expecting property name'')])
   \<and> invocations (snd (main \<lparr>goto_raises = None, wait_raises = None,
         soup_title = Some (Some ''Sample Title''), soup_article = Some ''Para one.'',
         ollama_run = (\<lambda>n p. Inr \<lparr>returncode = 0,
             stdout = CHR ''{'' # (''\"a\": '' @ replicate 100000 CHR ''[''
                                    @ replicate 100000 CHR '']'') @ ''}'',
             stderr = []\<rparr>),
         json_loads = (\<lambda>s. Inl (RecursionError ''maximum recursion depth exceeded''))\<rparr>))
       = [build_analysis_prompt ''Sample Title'' ''Para one.'']"
proof (intro conjI)
  let ?t = "[Launch, NewPage,
         Print ''Opening browser. Please solve the CAPTCHA manually if prompted...'',
         Goto target_url, WaitForSelector article_selector, Close]"
  have ne: "''Sample Title'' \<noteq> []" "''Para one.'' \<noteq> []" by simp_all
  have st: "strip ''Sample Title'' = ''Sample Title''"
    by (simp add: strip_def py_isspace_def)
  {
    let ?w1 = "\<lparr>goto_raises = None, wait_raises = None,
         soup_title = Some (Some ''Sample Title''), soup_article = Some ''Para one.'',
         ollama_run = (\<lambda>n p. Inr \<lparr>returncode = 0, stdout = ''I cannot help.'', stderr = []\<rparr>),
         json_loads = (\<lambda>s. Inr (JObj []))\<rparr>"
    have e1: "extract_article_with_playwright ?w1 target_url
                = (Inr (Some ''Sample Title'', Some ''Para one.''), ?t)"
      by (simp add: extract_article_with_playwright_def st)
    have q1: "query_ollama ?w1 0 (build_analysis_prompt ''Sample Title'' ''Para one.'')
                = Inr ''I cannot help.''"
      by (simp add: query_ollama_def strip_def py_isspace_def)
    have f1: "extract_json ''I cannot help.'' = Inl (ValueError ''No JSON object found in text'')
           \<or> (\<exists>js. extract_json ''I cannot help.'' = Inr js
                 \<and> json_loads ?w1 js = Inl (ValueError ''No JSON object found in text''))"
      by (simp add: extract_json_def)
    from parse_failure_halts_before_reviser [OF e1 ne q1 f1]
    show "main ?w1 = (Clean,
        [Launch, NewPage,
         Print ''Opening browser. Please solve the CAPTCHA manually if prompted...'',
         Goto target_url, WaitForSelector article_selector, Close,
         Print ''Title: Sample Title'',
         Print ''\<newline>Article Preview:\<newline> Para one.'',
         Print ''\<newline>Sending article to Ollama for analysis...'',
         Invoke (build_analysis_prompt ''Sample Title'' ''Para one.''),
         Print ''Failed to parse JSON from analysis response. Raw output:'',
         Print ''I cannot help.'',
         PrintExn ''Parsing error: '' (ValueError ''No JSON object found in text'')])"
      by simp
  }
  {
    let ?w2 = "\<lparr>goto_raises = None, wait_raises = None,
         soup_title = Some (Some ''Sample Title''), soup_article = Some ''Para one.'',
         ollama_run = (\<lambda>n p. Inr \<lparr>returncode = 0, stdout = ''{broken}'', stderr = []\<rparr>),
         json_loads = (\<lambda>s. Inl (JSONDecodeError ''Expecting property name''))\<rparr>"
    have e2: "extract_article_with_playwright ?w2 target_url
                = (Inr (Some ''Sample Title'', Some ''Para one.''), ?t)"
      by (simp add: extract_article_with_playwright_def st)
    have q2: "query_ollama ?w2 0 (build_analysis_prompt ''Sample Title'' ''Para one.'')
                = Inr ''{broken}''"
      by (simp add: query_ollama_def strip_def py_isspace_def)
    have f2: "extract_json ''{broken}'' = Inl (JSONDecodeError ''Expecting property name'')
           \<or> (\<exists>js. extract_json ''{broken}'' = Inr js
                 \<and> json_loads ?w2 js = Inl (JSONDecodeError ''Expecting property name''))"
      by (simp add: extract_json_def)
    from parse_failure_halts_before_reviser [OF e2 ne q2 f2]
    show "main ?w2 = (Clean,
        [Launch, NewPage,
         Print ''Opening browser. Please solve the CAPTCHA manually if prompted...'',
         Goto target_url, WaitForSelector article_selector, Close,
         Print ''Title: Sample Title'',
         Print ''\<newline>Article Preview:\<newline> Para one.'',
         Print ''\<newline>Sending article to Ollama for analysis...'',
         Invoke (build_analysis_prompt ''Sample Title'' ''Para one.''),
         Print ''Failed to parse JSON from analysis response. Raw output:'',
         Print ''{broken}'',
         PrintExn ''Parsing error: '' (JSONDecodeError ''Expecting property name'')])"
      by simp
  }
  {
    fix m :: string
    let ?w3 = "\<lparr>goto_raises = None, wait_raises = None,
         soup_title = Some (Some ''Sample Title''), soup_article = Some ''Para one.'',
         ollama_run = (\<lambda>n p. Inr \<lparr>returncode = 0, stdout = CHR ''{'' # m @ ''}'',
             stderr = []\<rparr>),
         json_loads = (\<lambda>s. Inl (RecursionError ''maximum recursion depth exceeded''))\<rparr>"
    have e3: "extract_article_with_playwright ?w3 target_url
                = (Inr (Some ''Sample Title'', Some ''Para one.''), ?t)"
      by (simp add: extract_article_with_playwright_def st)
    have q3: "query_ollama ?w3 0 (build_analysis_prompt ''Sample Title'' ''Para one.'')
                = Inr (CHR ''{'' # m @ ''}'')"
      by (simp add: query_ollama_def strip_braced)
    have f3: "extract_json (CHR ''{'' # m @ ''}'')
                = Inl (RecursionError ''maximum recursion depth exceeded'')
           \<or> (\<exists>js. extract_json (CHR ''{'' # m @ ''}'') = Inr js
                 \<and> json_loads ?w3 js = Inl (RecursionError ''maximum recursion depth exceeded''))"
      by (simp add: extract_json_braced)
    from parse_failure_halts_before_reviser [OF e3 ne q3 f3]
    have "invocations (snd (main ?w3)) = [build_analysis_prompt ''Sample Title'' ''Para one.'']"
      by (rule conjunct2 [THEN conjunct1])
  }
  then show "invocations (snd (main \<lparr>goto_raises = None, wait_raises = None,
         soup_title = Some (Some ''Sample Title''), soup_article = Some ''Para one.'',
         ollama_run = (\<lambda>n p. Inr \<lparr>returncode = 0,
             stdout = CHR ''{'' # (''\"a\": '' @ replicate 100000 CHR ''[''
                                    @ replicate 100000 CHR '']'') @ ''}'',
             stderr = []\<rparr>),
         json_loads = (\<lambda>s. Inl (RecursionError ''maximum recursion depth exceeded''))\<rparr>))
       = [build_analysis_prompt ''Sample Title'' ''Para one.'']"
    by (rule meta_spec)
qed

text \<open>
  C6, as stated, fails. The model output below is an object nested a hundred thousand
  lists deep, on which the parser raises \<^verbatim>\<open>RecursionError\<close>. The candidate fails to
  parse, the exception is not a \<^verbatim>\<open>ValueError\<close>, and the generic handler prints the
  exception only: the raw model output is not printed.
\<close>

theorem parser_recursion_counterexample:
  "main \<lparr>goto_raises = None, wait_raises = None,
         soup_title = Some (Some ''Sample Title''), soup_article = Some ''Para one.'',
         ollama_run = (\<lambda>n p. Inr \<lparr>returncode = 0,
             stdout = CHR ''{'' # (''\"a\": '' @ replicate 100000 CHR ''[''
                                    @ replicate 100000 CHR '']'') @ ''}'',
             stderr = []\<rparr>),
         json_loads = (\<lambda>s. Inl (RecursionError ''maximum recursion depth exceeded''))\<rparr>
     = (Clean,
        [Launch, NewPage,
         Print ''Opening browser. Please solve the CAPTCHA manually if prompted...'',
         Goto target_url, WaitForSelector article_selector, Close,
         Print ''Title: Sample Title'',
         Print ''\<newline>Article Preview:\<newline> Para one.'',
         Print ''\<newline>Sending article to Ollama for analysis...'',
         Invoke (build_analysis_prompt ''Sample Title'' ''Para one.''),
         PrintExn ''Error during processing: ''
           (RecursionError ''maximum recursion depth exceeded'')])"
proof -
  have g: "main \<lparr>goto_raises = None, wait_raises = None,
         soup_title = Some (Some ''Sample Title''), soup_article = Some ''Para one.'',
         ollama_run = (\<lambda>n p. Inr \<lparr>returncode = 0, stdout = CHR ''{'' # m @ ''}'',
             stderr = []\<rparr>),
         json_loads = (\<lambda>s. Inl (RecursionError ''maximum recursion depth exceeded''))\<rparr>
     = (Clean,
        [Launch, NewPage,
         Print ''Opening browser. Please solve the CAPTCHA manually if prompted...'',
         Goto target_url, WaitForSelector article_selector, Close,
         Print ''Title: Sample Title'',
         Print ''\<newline>Article Preview:\<newline> Para one.'',
         Print ''\<newline>Sending article to Ollama for analysis...'',
         Invoke (build_analysis_prompt ''Sample Title'' ''Para one.''),
         PrintExn ''Error during processing: ''
           (RecursionError ''maximum recursion depth exceeded'')])" for m
  proof -
    have s: "strip ''Sample Title'' = ''Sample Title''"
      by (simp add: strip_def py_isspace_def)
    show ?thesis
      by (simp add: main_def analyze_and_revise_def extract_article_with_playwright_def
            query_ollama_def try_body_def s strip_braced extract_json_braced)
  qed
  show ?thesis by (rule g)
qed

text \<open>
  C3, as the code has it. The run ends with an unhandled exception exactly when the
  extraction raises (a missing container after a successful wait, a failed navigation) or
  when the first model call, which precedes the \<^verbatim>\<open>try\<close> statement, raises. An
  exception that leaves the body of the \<^verbatim>\<open>try\<close> statement and is not a
  \<^verbatim>\<open>ValueError\<close>, such as the failure of the second model call, is caught: the run
  prints \<^verbatim>\<open>Error during processing:\<close> with the exception and ends cleanly.
\<close>

theorem failures_caught_only_inside_try:
  "(fst (main w) = Uncaught e \<longleftrightarrow>
      fst (extract_article_with_playwright w target_url) = Inl e
      \<or> (\<exists>ti ar. fst (extract_article_with_playwright w target_url) = Inr (Some ti, Some ar)
            \<and> ti \<noteq> [] \<and> ar \<noteq> []
            \<and> query_ollama w 0 (build_analysis_prompt ti ar) = Inl e))
   \<and> (extract_article_with_playwright w target_url = (Inr (Some ti, Some ar), t)
        \<and> ti \<noteq> [] \<and> ar \<noteq> []
        \<and> query_ollama w 0 (build_analysis_prompt ti ar) = Inr resp
        \<and> try_body w ar resp
             (t @ [Print (''Title: '' @ ti),
                   Print (''\<newline>Article Preview:\<newline> '' @ take 1000 ar),
                   Print ''\<newline>Sending article to Ollama for analysis...'',
                   Invoke (build_analysis_prompt ti ar)]) = (Inl x, t2)
        \<and> \<not> is_ValueError x
      \<longrightarrow> main w = (Clean, t2 @ [PrintExn ''Error during processing: '' x]))"
proof (intro conjI impI)
  obtain r t where ex: "extract_article_with_playwright w target_url = (r, t)"
    by (cases "extract_article_with_playwright w target_url")
  show "fst (main w) = Uncaught e \<longleftrightarrow>
      fst (extract_article_with_playwright w target_url) = Inl e
      \<or> (\<exists>ti ar. fst (extract_article_with_playwright w target_url) = Inr (Some ti, Some ar)
            \<and> ti \<noteq> [] \<and> ar \<noteq> []
            \<and> query_ollama w 0 (build_analysis_prompt ti ar) = Inl e)"
  proof (cases r)
    case (Inl e')
    with ex show ?thesis by (simp add: main_def)
  next
    case (Inr pr)
    obtain title article where pr: "pr = (title, article)" by (cases pr)
    show ?thesis
    proof (cases "\<exists>ti ar. title = Some ti \<and> article = Some ar \<and> ti \<noteq> [] \<and> ar \<noteq> []")
      case False
      with ex Inr pr show ?thesis
        by (auto simp: main_def split: option.splits)
    next
      case True
      then obtain ti ar where ta: "title = Some ti" "article = Some ar" "ti \<noteq> []" "ar \<noteq> []"
        by blast
      with ex Inr pr have m: "main w = analyze_and_revise w ti ar t" by (simp add: main_def)
      have "fst (analyze_and_revise w ti ar t) = Uncaught e
              \<longleftrightarrow> query_ollama w 0 (build_analysis_prompt ti ar) = Inl e"
        by (auto simp: analyze_and_revise_def Let_def split: sum.splits prod.splits)
      with m ex Inr pr ta show ?thesis by simp
    qed
  qed
next
  assume "extract_article_with_playwright w target_url = (Inr (Some ti, Some ar), t)
        \<and> ti \<noteq> [] \<and> ar \<noteq> []
        \<and> query_ollama w 0 (build_analysis_prompt ti ar) = Inr resp
        \<and> try_body w ar resp
             (t @ [Print (''Title: '' @ ti),
                   Print (''\<newline>Article Preview:\<newline> '' @ take 1000 ar),
                   Print ''\<newline>Sending article to Ollama for analysis...'',
                   Invoke (build_analysis_prompt ti ar)]) = (Inl x, t2)
        \<and> \<not> is_ValueError x"
  then show "main w = (Clean, t2 @ [PrintExn ''Error during processing: '' x])"
    by (simp add: main_def analyze_and_revise_def Let_def)
qed

theorem failures_caught_only_inside_try_witness:
  "main \<lparr>goto_raises = None, wait_raises = None,
         soup_title = Some (Some ''Sample Title''), soup_article = Some ''Para one.'',
         ollama_run = (\<lambda>n p. if n = 0 then Inr \<lparr>returncode = 0, stdout = ''{}'', stderr = []\<rparr>
                               else Inr \<lparr>returncode = 1, stdout = [], stderr = ''model crashed''\<rparr>),
         json_loads = (\<lambda>s. Inr (JObj []))\<rparr>
     = (Clean,
        [Launch, NewPage,
         Print ''Opening browser. Please solve the CAPTCHA manually if prompted...'',
         Goto target_url, WaitForSelector article_selector, Close,
         Print ''Title: Sample Title'',
         Print ''\<newline>Article Preview:\<newline> Para one.'',
         Print ''\<newline>Sending article to Ollama for analysis...'',
         Invoke (build_analysis_prompt ''Sample Title'' ''Para one.''),
         Print ''\<newline>Analysis Result (parsed JSON):\<newline>'',
         PrintJson (JObj []),
         Print ''\<newline>Generating revised article based on readability and style suggestions...\<newline>'',
         Invoke (revision_template ''Para one.'' ''No suggestions provided.''),
         PrintExn ''Error during processing: '' (Exception ''Ollama error: model crashed'')])"
proof -
  let ?w = "\<lparr>goto_raises = None, wait_raises = None,
         soup_title = Some (Some ''Sample Title''), soup_article = Some ''Para one.'',
         ollama_run = (\<lambda>n p. if n = 0 then Inr \<lparr>returncode = 0, stdout = ''{}'', stderr = []\<rparr>
                               else Inr \<lparr>returncode = 1, stdout = [], stderr = ''model crashed''\<rparr>),
         json_loads = (\<lambda>s. Inr (JObj []))\<rparr>"
  let ?t = "[Launch, NewPage,
         Print ''Opening browser. Please solve the CAPTCHA manually if prompted...'',
         Goto target_url, WaitForSelector article_selector, Close]"
  let ?t1 = "?t @ [Print (''Title: '' @ ''Sample Title''),
                   Print (''\<newline>Article Preview:\<newline> '' @ take 1000 ''Para one.''),
                   Print ''\<newline>Sending article to Ollama for analysis...'',
                   Invoke (build_analysis_prompt ''Sample Title'' ''Para one.'')]"
  let ?t2 = "?t1 @ [Print ''\<newline>Analysis Result (parsed JSON):\<newline>'',
         PrintJson (JObj []),
         Print ''\<newline>Generating revised article based on readability and style suggestions...\<newline>'',
         Invoke (revision_template ''Para one.'' ''No suggestions provided.'')]"
  have e: "extract_article_with_playwright ?w target_url
              = (Inr (Some ''Sample Title'', Some ''Para one.''), ?t)"
    by (simp add: extract_article_with_playwright_def strip_def py_isspace_def)
  have q: "query_ollama ?w 0 (build_analysis_prompt ''Sample Title'' ''Para one.'') = Inr ''{}''"
    by (simp add: query_ollama_def strip_def py_isspace_def)
  have b: "build_revision_prompt ''Para one.'' (JObj [])
             = Inr (revision_template ''Para one.'' ''No suggestions provided.'')"
    by (simp add: build_revision_prompt_def combined_suggestions_def
          readability_suggestions_def style_suggestions_def py_get_def dict_get_def
          suggestions_text_def)
  have q1: "query_ollama ?w 1 (revision_template ''Para one.'' ''No suggestions provided.'')
              = Inl (Exception ''Ollama error: model crashed'')"
    by (simp add: query_ollama_def strip_def py_isspace_def)
  have tb: "try_body ?w ''Para one.'' ''{}'' ?t1
              = (Inl (Exception ''Ollama error: model crashed''), ?t2)"
    unfolding try_body_def
    by (simp add: extract_json_def normalize_analysis_json_def b q1 Let_def
          del: append.simps One_nat_def)
  have "main ?w = (Clean, ?t2 @ [PrintExn ''Error during processing: ''
                                   (Exception ''Ollama error: model crashed'')])"
    using failures_caught_only_inside_try
      [where w = ?w and ti = "''Sample Title''" and ar = "''Para one.''" and t = ?t
         and resp = "''{}''" and x = "Exception ''Ollama error: model crashed''" and ?t2.0 = ?t2
         and e = "Exception []"]
      e q tb
    by simp
  then show ?thesis by simp
qed

text \<open>
  C3, as stated, fails. In the first run the container is missing after a successful wait;
  in the second the first model call ends with a non-zero return code. Both exceptions
  leave \<open>main\<close> unhandled, and nothing is printed about them.
\<close>

theorem failures_outside_try_counterexample:
  "main \<lparr>goto_raises = None, wait_raises = None,
         soup_title = Some (Some ''Sample Title''), soup_article = None,
         ollama_run = (\<lambda>n p. Inr \<lparr>returncode = 0, stdout = ''{}'', stderr = []\<rparr>),
         json_loads = (\<lambda>s. Inr (JObj []))\<rparr>
     = (Uncaught (Exception ''Article content not found after CAPTCHA.''),
        [Launch, NewPage,
         Print ''Opening browser. Please solve the CAPTCHA manually if prompted...'',
         Goto target_url, WaitForSelector article_selector, Close])
   \<and> main \<lparr>goto_raises = None, wait_raises = None,
         soup_title = Some (Some ''Sample Title''), soup_article = Some ''Para one.'',
         ollama_run = (\<lambda>n p. Inr \<lparr>returncode = 1, stdout = [], stderr = ''model not found''\<rparr>),
         json_loads = (\<lambda>s. Inr (JObj []))\<rparr>
     = (Uncaught (Exception ''Ollama error: model not found''),
        [Launch, NewPage,
         Print ''Opening browser. Please solve the CAPTCHA manually if prompted...'',
         Goto target_url, WaitForSelector article_selector, Close,
         Print ''Title: Sample Title'',
         Print ''\<newline>Article Preview:\<newline> Para one.'',
         Print ''\<newline>Sending article to Ollama for analysis...'',
         Invoke (build_analysis_prompt ''Sample Title'' ''Para one.'')])"
  by (simp add: main_def analyze_and_revise_def extract_article_with_playwright_def
        query_ollama_def strip_def py_isspace_def)

text \<open>
  C10, as the code has it. When the extraction succeeds with an empty title or an empty
  body, the run ends cleanly right after the extraction: the guard prints nothing and the
  model is never called. With both non-empty the analysis prompt is sent. The fallback
  \<^verbatim>\<open>No title found\<close> is the title only when the page has no title element; otherwise
  the title is the stripped text of the element, which may be empty.
\<close>

theorem guard_needs_title_and_body:
  "(extract_article_with_playwright w target_url = (Inr (Some ti, Some ar), t)
      \<and> (ti = [] \<or> ar = []) \<longrightarrow>
       main w = (Clean,
                 [Launch, NewPage,
                  Print ''Opening browser. Please solve the CAPTCHA manually if prompted...'',
                  Goto target_url, WaitForSelector article_selector, Close])
       \<and> invocations (snd (main w)) = [])
   \<and> (extract_article_with_playwright w target_url = (Inr (Some ti, Some ar), t)
        \<and> ti \<noteq> [] \<and> ar \<noteq> [] \<longrightarrow>
       build_analysis_prompt ti ar \<in> set (invocations (snd (main w))))
   \<and> (extract_article_with_playwright w target_url = (Inr (Some ti, Some ar), t)
        \<and> soup_title w = None \<longrightarrow> ti = ''No title found'')
   \<and> (extract_article_with_playwright w target_url = (Inr (Some ti, Some ar), t)
        \<and> soup_title w = Some (Some s) \<longrightarrow> ti = strip s)"
proof (intro conjI impI)
  assume a: "extract_article_with_playwright w target_url = (Inr (Some ti, Some ar), t)
      \<and> (ti = [] \<or> ar = [])"
  then have t: "t = [Launch, NewPage,
                  Print ''Opening browser. Please solve the CAPTCHA manually if prompted...'',
                  Goto target_url, WaitForSelector article_selector, Close]"
    using extract_success_trace by blast
  from a have "main w = (Clean, t)" by (auto simp: main_def)
  with t show m: "main w = (Clean,
                 [Launch, NewPage,
                  Print ''Opening browser. Please solve the CAPTCHA manually if prompted...'',
                  Goto target_url, WaitForSelector article_selector, Close])"
    by simp
  then show "invocations (snd (main w)) = []" by simp
next
  assume a: "extract_article_with_playwright w target_url = (Inr (Some ti, Some ar), t)
        \<and> ti \<noteq> [] \<and> ar \<noteq> []"
  then have "main w = analyze_and_revise w ti ar t" by (simp add: main_def)
  moreover obtain u where "snd (analyze_and_revise w ti ar t) =
     (t @ [Print (''Title: '' @ ti),
           Print (''\<newline>Article Preview:\<newline> '' @ take 1000 ar),
           Print ''\<newline>Sending article to Ollama for analysis...'',
           Invoke (build_analysis_prompt ti ar)]) @ u"
    using analyze_and_revise_extends by blast
  ultimately show "build_analysis_prompt ti ar \<in> set (invocations (snd (main w)))"
    by (simp add: invocations_append)
next
  assume "extract_article_with_playwright w target_url = (Inr (Some ti, Some ar), t)
        \<and> soup_title w = None"
  then show "ti = ''No title found''"
    by (auto simp: extract_article_with_playwright_def Let_def split: option.splits)
next
  assume "extract_article_with_playwright w target_url = (Inr (Some ti, Some ar), t)
        \<and> soup_title w = Some (Some s)"
  then show "ti = strip s"
    by (auto simp: extract_article_with_playwright_def Let_def split: option.splits)
qed

theorem guard_needs_title_and_body_witness:
  "main \<lparr>goto_raises = None, wait_raises = None,
         soup_title = None, soup_article = Some [],
         ollama_run = (\<lambda>n p. Inr \<lparr>returncode = 0, stdout = ''{}'', stderr = []\<rparr>),
         json_loads = (\<lambda>s. Inr (JObj []))\<rparr>
     = (Clean,
        [Launch, NewPage,
         Print ''Opening browser. Please solve the CAPTCHA manually if prompted...'',
         Goto target_url, WaitForSelector article_selector, Close])
   \<and> build_analysis_prompt ''No title found'' ''Para one.''
       \<in> set (invocations (snd (main \<lparr>goto_raises = None, wait_raises = None,
             soup_title = None, soup_article = Some ''Para one.'',
             ollama_run = (\<lambda>n p. Inr \<lparr>returncode = 0, stdout = ''{}'', stderr = []\<rparr>),
             json_loads = (\<lambda>s. Inr (JObj []))\<rparr>)))"
proof
  let ?w = "\<lparr>goto_raises = None, wait_raises = None,
         soup_title = None, soup_article = Some [],
         ollama_run = (\<lambda>n p. Inr \<lparr>returncode = 0, stdout = ''{}'', stderr = []\<rparr>),
         json_loads = (\<lambda>s. Inr (JObj []))\<rparr>"
  let ?t = "[Launch, NewPage,
         Print ''Opening browser. Please solve the CAPTCHA manually if prompted...'',
         Goto target_url, WaitForSelector article_selector, Close]"
  have "extract_article_with_playwright ?w target_url = (Inr (Some ''No title found'', Some []), ?t)
          \<and> (''No title found'' = [] \<or> ([]::string) = [])"
    by (simp add: extract_article_with_playwright_def)
  with guard_needs_title_and_body
         [where w = ?w and ti = "''No title found''" and ar = "[]" and t = ?t and s = "[]"]
  show "main ?w = (Clean, ?t)" by blast
next
  let ?w = "\<lparr>goto_raises = None, wait_raises = None,
             soup_title = None, soup_article = Some ''Para one.'',
             ollama_run = (\<lambda>n p. Inr \<lparr>returncode = 0, stdout = ''{}'', stderr = []\<rparr>),
             json_loads = (\<lambda>s. Inr (JObj []))\<rparr>"
  let ?t = "[Launch, NewPage,
         Print ''Opening browser. Please solve the CAPTCHA manually if prompted...'',
         Goto target_url, WaitForSelector article_selector, Close]"
  have "extract_article_with_playwright ?w target_url
          = (Inr (Some ''No title found'', Some ''Para one.''), ?t)
          \<and> ''No title found'' \<noteq> [] \<and> ''Para one.'' \<noteq> []"
    by (simp add: extract_article_with_playwright_def)
  with guard_needs_title_and_body
         [where w = ?w and ti = "''No title found''" and ar = "''Para one.''" and t = ?t and s = "[]"]
  show "build_analysis_prompt ''No title found'' ''Para one.''
          \<in> set (invocations (snd (main ?w)))" by blast
qed

text \<open>
  C10, as stated, fails in its remark that the title is never empty. The page below has a
  title element holding a single space and a container with text: the stripped title is
  empty, and the run stops at the guard although the body is not empty.
\<close>

theorem blank_title_counterexample:
  "main \<lparr>goto_raises = None, wait_raises = None,
         soup_title = Some (Some '' ''), soup_article = Some ''Para one.'',
         ollama_run = (\<lambda>n p. Inr \<lparr>returncode = 0, stdout = ''{}'', stderr = []\<rparr>),
         json_loads = (\<lambda>s. Inr (JObj []))\<rparr>
     = (Clean,
        [Launch, NewPage,
         Print ''Opening browser. Please solve the CAPTCHA manually if prompted...'',
         Goto target_url, WaitForSelector article_selector, Close])
   \<and> extract_article_with_playwright
        \<lparr>goto_raises = None, wait_raises = None,
         soup_title = Some (Some '' ''), soup_article = Some ''Para one.'',
         ollama_run = (\<lambda>n p. Inr \<lparr>returncode = 0, stdout = ''{}'', stderr = []\<rparr>),
         json_loads = (\<lambda>s. Inr (JObj []))\<rparr> target_url
     = (Inr (Some [], Some ''Para one.''),
        [Launch, NewPage,
         Print ''Opening browser. Please solve the CAPTCHA manually if prompted...'',
         Goto target_url, WaitForSelector article_selector, Close])"
  by (simp add: main_def extract_article_with_playwright_def strip_def py_isspace_def)

end
